theory Spec2Isabelle
  imports Main "HOL-Library.AList" "HOL-Library.List_Lexorder" "HOL-Library.Char_ord"
    "HOL-Library.Word"
begin

section \<open>JSON values and JavaScript conversions\<close>

text \<open>
  Every control message of the repository is an object that goes through
  \<^verbatim>\<open>JSON.stringify\<close> on one side and \<^verbatim>\<open>JSON.parse\<close> on the other. A text
  message is represented by what \<^verbatim>\<open>JSON.parse\<close> returns on it: \<open>Some v\<close> for the
  parsed value, \<open>None\<close> when \<^verbatim>\<open>JSON.parse\<close> throws a SyntaxError. An object keeps
  its fields in insertion order. Numbers are the integers (a fractional number is
  outside the model).
\<close>

datatype jvalue =
    JNull
  | JBool bool
  | JNum int
  | JStr string
  | JArr "jvalue list"
  | JObj "(string \<times> jvalue) list"

type_synonym js_text = "jvalue option"

text \<open>
  \<^verbatim>\<open>v.k\<close> for a value other than \<^verbatim>\<open>null\<close>: the field of an object, \<^verbatim>\<open>undefined\<close>
  (\<open>None\<close>) when the object has no such field or the value is no object. The
  handlers only read the names \<^verbatim>\<open>type\<close>, \<^verbatim>\<open>targetPeerId\<close>, \<^verbatim>\<open>data\<close>, \<^verbatim>\<open>name\<close> and
  \<^verbatim>\<open>size\<close>, which no string, number, boolean or array has. On \<^verbatim>\<open>null\<close> the access
  throws a TypeError; each handler tests for \<open>JNull\<close> where the source would throw.
\<close>

definition member :: "jvalue \<Rightarrow> string \<Rightarrow> jvalue option" where
  "member v k = (case v of JObj fs \<Rightarrow> map_of fs k | _ \<Rightarrow> None)"

definition digit_char :: "nat \<Rightarrow> char" where
  "digit_char d = ''0123456789'' ! d"

function string_of_nat :: "nat \<Rightarrow> string" where
  "string_of_nat n =
     (if n < 10 then [digit_char n] else string_of_nat (n div 10) @ [digit_char (n mod 10)])"
  by pat_completeness auto
termination
  by (relation "measure (\<lambda>n. n)") auto

fun intercalate :: "string \<Rightarrow> string list \<Rightarrow> string" where
  "intercalate sep [] = []"
| "intercalate sep [x] = x"
| "intercalate sep (x # y # ys) = x @ sep @ intercalate sep (y # ys)"

text \<open>
  The string a template literal \<^verbatim>\<open>`${v}`\<close> puts in place of a value, \<open>None\<close> when
  the conversion throws a TypeError.
  \<^item> A string is itself, \<^verbatim>\<open>null\<close> and the booleans print as their names.
  \<^item> How JavaScript prints a number is not modelled: the printer is the parameter
    \<open>num\<close>.
  \<^item> An object without a field \<^verbatim>\<open>toString\<close> of its own prints through
    \<^verbatim>\<open>Object.prototype.toString\<close>. With such a field, which holds a JSON value and so
    is not callable, the conversion goes on to \<^verbatim>\<open>valueOf\<close>, which is not callable either
    or returns the object, and throws.
  \<^item> An array prints through \<^verbatim>\<open>join\<close>: its elements with commas between them,
    \<^verbatim>\<open>null\<close> as the empty string; it throws when an element does.
\<close>

fun js_string :: "(int \<Rightarrow> string) \<Rightarrow> jvalue \<Rightarrow> string option" where
  "js_string num JNull = Some ''null''"
| "js_string num (JBool b) = Some (if b then ''true'' else ''false'')"
| "js_string num (JNum i) = Some (num i)"
| "js_string num (JStr s) = Some s"
| "js_string num (JArr xs) =
     map_option (intercalate '','')
       (those (map (\<lambda>x. if x = JNull then Some [] else js_string num x) xs))"
| "js_string num (JObj fs) =
     (if map_of fs ''toString'' \<noteq> None then None else Some ''[object Object]'')"

text \<open>The same for a value that can be \<^verbatim>\<open>undefined\<close> (\<open>None\<close>).\<close>

definition js_template :: "(int \<Rightarrow> string) \<Rightarrow> jvalue option \<Rightarrow> string option" where
  "js_template num v = (case v of None \<Rightarrow> Some ''undefined'' | Some x \<Rightarrow> js_string num x)"

text \<open>JavaScript truthiness, as \<^verbatim>\<open>||\<close> and \<^verbatim>\<open>if\<close> test it.\<close>

fun truthy :: "jvalue \<Rightarrow> bool" where
  "truthy JNull = False"
| "truthy (JBool b) = b"
| "truthy (JNum i) = (i \<noteq> 0)"
| "truthy (JStr s) = (s \<noteq> [])"
| "truthy (JArr xs) = True"
| "truthy (JObj fs) = True"


section \<open>The relay hub (signaling server)\<close>

text \<open>
  \<^verbatim>\<open>const peers = new Map()\<close> maps a peer identifier to its WebSocket. A Map keeps
  its keys in insertion order: it is an association list, \<^verbatim>\<open>set\<close> is
  \<^const>\<open>AList.update\<close> (an existing key keeps its place) and \<^verbatim>\<open>delete\<close> is
  \<^const>\<open>AList.delete\<close>. A WebSocket is an object of the \<^verbatim>\<open>ws\<close> library: the model
  names it by a number and reads its \<^verbatim>\<open>readyState\<close>, which the network changes,
  from a store \<open>rs\<close>. \<^verbatim>\<open>sock.send(JSON.stringify(v))\<close> is the effect \<open>Send sock v\<close>;
  a handler returns the registry and the sends it made, in order.
\<close>

datatype ws_state = CONNECTING | OPEN | CLOSING | CLOSED

type_synonym sock = nat

type_synonym registry = "(string \<times> sock) list"

datatype effect = Send sock jvalue

definition peer_id_envelope :: "string \<Rightarrow> jvalue" where
  "peer_id_envelope peerId = JObj [(''type'', JStr ''peer-id''), (''peerId'', JStr peerId)]"

definition error_envelope :: "string \<Rightarrow> jvalue" where
  "error_envelope msg = JObj [(''type'', JStr ''error''), (''message'', JStr msg)]"

definition peer_disconnected_envelope :: "string \<Rightarrow> jvalue" where
  "peer_disconnected_envelope peerId =
     JObj [(''type'', JStr ''peer-disconnected''), (''peerId'', JStr peerId)]"

text \<open>\<^verbatim>\<open>wss.on('connection')\<close>: the identifier comes from \<^verbatim>\<open>generatePeerId()\<close>
  (the clock and a random suffix), so it is an argument.\<close>

definition on_connection :: "string \<Rightarrow> sock \<Rightarrow> registry \<Rightarrow> registry \<times> effect list" where
  "on_connection peerId ws peers =
     (AList.update peerId ws peers, [Send ws (peer_id_envelope peerId)])"

text \<open>\<^verbatim>\<open>peers.get(data.targetPeerId)\<close>: the keys are strings, so only a string
  finds an entry.\<close>

definition peers_get :: "registry \<Rightarrow> jvalue option \<Rightarrow> sock option" where
  "peers_get peers key = (case key of Some (JStr k) \<Rightarrow> map_of peers k | _ \<Rightarrow> None)"

text \<open>
  The \<^verbatim>\<open>else\<close> branch of the forwarding cases. The log line prints
  \<^verbatim>\<open>data.targetPeerId\<close> in a template literal before the reply is sent: when that
  conversion throws, the \<^verbatim>\<open>catch\<close> block replies instead.
\<close>

definition not_available :: "(int \<Rightarrow> string) \<Rightarrow> sock \<Rightarrow> jvalue option \<Rightarrow> effect list" where
  "not_available num ws targetPeerId =
     (case js_template num targetPeerId of
        None \<Rightarrow> [Send ws (error_envelope ''Invalid message format'')]
      | Some t \<Rightarrow> [Send ws (error_envelope (''Peer '' @ t @ '' not available''))])"

text \<open>The three forwarding cases of the \<^verbatim>\<open>switch\<close>: \<^verbatim>\<open>{...data, fromPeerId: peerId}\<close>
  goes to the target when it is registered and open (the log line after the send
  prints two strings), an error goes to the sender otherwise.\<close>

definition forward :: "(int \<Rightarrow> string) \<Rightarrow> (sock \<Rightarrow> ws_state) \<Rightarrow> string \<Rightarrow> sock \<Rightarrow> registry \<Rightarrow>
    (string \<times> jvalue) list \<Rightarrow> effect list" where
  "forward num rs peerId ws peers fs =
     (case peers_get peers (map_of fs ''targetPeerId'') of
        Some targetPeer \<Rightarrow>
          if rs targetPeer = OPEN
          then [Send targetPeer (JObj (AList.update ''fromPeerId'' (JStr peerId) fs))]
          else not_available num ws (map_of fs ''targetPeerId'')
      | None \<Rightarrow> not_available num ws (map_of fs ''targetPeerId''))"

definition list_peers :: "string \<Rightarrow> sock \<Rightarrow> registry \<Rightarrow> effect list" where
  "list_peers peerId ws peers =
     [Send ws (JObj [(''type'', JStr ''peer-list''),
                     (''peers'', JArr (map JStr (filter (\<lambda>id. id \<noteq> peerId) (map fst peers))))])]"

text \<open>\<^verbatim>\<open>JSON.stringify\<close> leaves out a field whose value is \<^verbatim>\<open>undefined\<close>.\<close>

definition broadcast :: "(sock \<Rightarrow> ws_state) \<Rightarrow> string \<Rightarrow> registry \<Rightarrow>
    (string \<times> jvalue) list \<Rightarrow> effect list" where
  "broadcast rs peerId peers fs =
     map (\<lambda>(pId, peerWs).
            Send peerWs (JObj ([(''type'', JStr ''broadcast''), (''fromPeerId'', JStr peerId)]
                               @ (case map_of fs ''data'' of None \<Rightarrow> [] | Some d \<Rightarrow> [(''data'', d)]))))
         (filter (\<lambda>(pId, peerWs). pId \<noteq> peerId \<and> rs peerWs = OPEN) peers)"

text \<open>The \<^verbatim>\<open>default\<close> case: the log line prints \<^verbatim>\<open>data.type\<close> in a template
  literal; nothing is sent unless that conversion throws and the \<^verbatim>\<open>catch\<close> block
  replies.\<close>

definition unknown_type :: "(int \<Rightarrow> string) \<Rightarrow> sock \<Rightarrow> jvalue option \<Rightarrow> effect list" where
  "unknown_type num ws type =
     (case js_template num type of
        None \<Rightarrow> [Send ws (error_envelope ''Invalid message format'')]
      | Some t \<Rightarrow> [])"

text \<open>
  \<^verbatim>\<open>ws.on('message')\<close> of the endpoint \<open>peerId\<close> with socket \<open>ws\<close>. The \<^verbatim>\<open>catch\<close>
  block is reached when \<^verbatim>\<open>JSON.parse\<close> throws, when the parsed value is \<^verbatim>\<open>null\<close>
  (\<^verbatim>\<open>data.type\<close> throws) and when a log line cannot print a value. A value that
  is no object has no \<^verbatim>\<open>type\<close> and falls to \<^verbatim>\<open>default\<close>.
\<close>

definition on_message :: "(int \<Rightarrow> string) \<Rightarrow> (sock \<Rightarrow> ws_state) \<Rightarrow> string \<Rightarrow> sock \<Rightarrow> registry \<Rightarrow>
    js_text \<Rightarrow> registry \<times> effect list" where
  "on_message num rs peerId ws peers message =
     (case message of
        None \<Rightarrow> (peers, [Send ws (error_envelope ''Invalid message format'')])
      | Some JNull \<Rightarrow> (peers, [Send ws (error_envelope ''Invalid message format'')])
      | Some (JObj fs) \<Rightarrow>
          (case map_of fs ''type'' of
             Some (JStr t) \<Rightarrow>
               if t = ''offer'' \<or> t = ''answer'' \<or> t = ''ice-candidate''
                 then (peers, forward num rs peerId ws peers fs)
               else if t = ''list-peers'' then (peers, list_peers peerId ws peers)
               else if t = ''broadcast'' then (peers, broadcast rs peerId peers fs)
               else (peers, unknown_type num ws (Some (JStr t)))
           | type \<Rightarrow> (peers, unknown_type num ws type))
      | Some _ \<Rightarrow> (peers, unknown_type num ws None))"

text \<open>\<^verbatim>\<open>ws.on('close')\<close> of the endpoint \<open>peerId\<close>.\<close>

definition on_close :: "(sock \<Rightarrow> ws_state) \<Rightarrow> string \<Rightarrow> registry \<Rightarrow> registry \<times> effect list" where
  "on_close rs peerId peers =
     (let peers' = AList.delete peerId peers
      in (peers', map (\<lambda>(pId, peerWs). Send peerWs (peer_disconnected_envelope peerId))
                      (filter (\<lambda>(pId, peerWs). rs peerWs = OPEN) peers')))"

text \<open>A store in which every socket is open, for running the handlers on examples.\<close>

definition all_open :: "sock \<Rightarrow> ws_state" where
  "all_open s = OPEN"

text \<open>What a socket was sent, in order: the payloads of the sends made on it.\<close>

definition sent_to :: "sock \<Rightarrow> effect list \<Rightarrow> jvalue list" where
  "sent_to s effs =
     map (\<lambda>e. case e of Send s' v \<Rightarrow> v) (filter (\<lambda>e. case e of Send s' v \<Rightarrow> s' = s) effs)"


section \<open>Chunked file transfer over one data channel (the manual-signaling application)\<close>

text \<open>
  A data channel carries text messages and binary messages. A \<^verbatim>\<open>File\<close> has a name
  and its bytes; \<^verbatim>\<open>file.size\<close> is the number of bytes.
\<close>

type_synonym byte = "8 word"

datatype frame = Text js_text | Binary "byte list"

record File =
  file_name :: string
  file_type :: string
  content :: "byte list"

definition file_size :: "File \<Rightarrow> nat" where
  "file_size f = length (content f)"

datatype channel_state = ch_connecting | ch_open | ch_closing | ch_closed

text \<open>
  \<^verbatim>\<open>interface FileTransfer\<close>. On the receiving side \<^verbatim>\<open>name\<close> and \<^verbatim>\<open>size\<close> are whatever
  the metadata message holds (\<open>None\<close> is \<^verbatim>\<open>undefined\<close>). The field \<^verbatim>\<open>progress\<close> is a
  floating-point percentage computed from \<^verbatim>\<open>received\<close> and \<^verbatim>\<open>size\<close> for display; it
  is left out.
\<close>

record FileTransfer =
  ft_name :: "jvalue option"
  ft_size :: "jvalue option"
  received :: nat

text \<open>
  The state of the component: \<^verbatim>\<open>selectedFile\<close>, the \<^verbatim>\<open>readyState\<close> of
  \<^verbatim>\<open>dataChannel.current\<close> (\<open>None\<close> when there is no channel), \<^verbatim>\<open>fileTransfer\<close>,
  \<^verbatim>\<open>receivedFile\<close> (its name and the bytes of its Blob) and \<^verbatim>\<open>receivedBuffer\<close>.
\<close>

record app =
  selectedFile :: "File option"
  dataChannel_state :: "channel_state option"
  fileTransfer :: "FileTransfer option"
  receivedFile :: "(jvalue option \<times> byte list) option"
  receivedBuffer :: "byte list list"

definition CHUNK_SIZE :: nat where
  "CHUNK_SIZE = 16384"

definition file_meta :: "File \<Rightarrow> jvalue" where
  "file_meta f = JObj [(''type'', JStr ''file-meta''), (''name'', JStr (file_name f)),
                       (''size'', JNum (int (file_size f)))]"

definition file_end :: "File \<Rightarrow> jvalue" where
  "file_end f = JObj [(''type'', JStr ''file-end''), (''name'', JStr (file_name f))]"

text \<open>
  The loop of \<^verbatim>\<open>readSlice\<close> and \<^verbatim>\<open>reader.onload\<close>: \<^verbatim>\<open>file.slice(offset, offset +
  CHUNK_SIZE)\<close> is read, sent as one binary message and \<^verbatim>\<open>offset\<close> advances by its
  length; the next slice is read while \<^verbatim>\<open>offset < file.size\<close>, then the end marker
  is sent. (\<^verbatim>\<open>e.target.result\<close> is an ArrayBuffer, which is always truthy.) The
  function returns the messages sent from \<open>offset\<close> on; the reads succeed and the
  channel stays open.
\<close>

function readSlice :: "File \<Rightarrow> nat \<Rightarrow> frame list" where
  "readSlice f offset =
     (let result = take CHUNK_SIZE (drop offset (content f));
          offset' = offset + length result
      in Binary result #
           (if offset' < file_size f then readSlice f offset' else [Text (Some (file_end f))]))"
  by pat_completeness auto
termination
  by (relation "measure (\<lambda>(f, offset). file_size f - offset)")
     (auto simp: file_size_def CHUNK_SIZE_def min_def split: if_splits)

text \<open>\<^verbatim>\<open>sendFile\<close>: the guard, the metadata message, the chunks. At the end
  \<^verbatim>\<open>fileTransfer\<close> and \<^verbatim>\<open>selectedFile\<close> are reset to \<^verbatim>\<open>null\<close>.\<close>

definition sendFile :: "app \<Rightarrow> app \<times> frame list" where
  "sendFile st =
     (case selectedFile st of
        None \<Rightarrow> (st, [])
      | Some f \<Rightarrow>
          if dataChannel_state st \<noteq> Some ch_open then (st, [])
          else (st\<lparr>fileTransfer := None, selectedFile := None\<rparr>,
                Text (Some (file_meta f)) # readSlice f 0))"

datatype js_error = SyntaxError | TypeError

text \<open>
  \<^verbatim>\<open>channel.onmessage\<close>. \<^verbatim>\<open>JSON.parse\<close> is not guarded here: a text that is no JSON,
  or the JSON \<^verbatim>\<open>null\<close>, ends the handler with an exception and leaves the state as
  it was. A binary message is an ArrayBuffer; \<^verbatim>\<open>new Blob(receivedBuffer)\<close> holds the
  buffers' bytes one after the other.
\<close>

definition onmessage :: "app \<Rightarrow> frame \<Rightarrow> js_error + app" where
  "onmessage st fr =
     (case fr of
        Text None \<Rightarrow> Inl SyntaxError
      | Text (Some JNull) \<Rightarrow> Inl TypeError
      | Text (Some message) \<Rightarrow>
          if member message ''type'' = Some (JStr ''file-meta'')
          then Inr (st\<lparr>receivedBuffer := [],
                       fileTransfer := Some \<lparr>ft_name = member message ''name'',
                                              ft_size = member message ''size'', received = 0\<rparr>\<rparr>)
          else if member message ''type'' = Some (JStr ''file-end'')
          then Inr (st\<lparr>receivedFile := Some (member message ''name'', concat (receivedBuffer st)),
                       fileTransfer := None,
                       receivedBuffer := []\<rparr>)
          else Inr st
      | Binary d \<Rightarrow>
          Inr (st\<lparr>receivedBuffer := receivedBuffer st @ [d],
                  fileTransfer := map_option (\<lambda>prev. prev\<lparr>received := received prev + length d\<rparr>)
                                             (fileTransfer st)\<rparr>))"

text \<open>The channel delivers the messages one by one; an exception ends one handler
  only.\<close>

definition deliver :: "app \<Rightarrow> frame \<Rightarrow> app" where
  "deliver st fr = (case onmessage st fr of Inl e \<Rightarrow> st | Inr st' \<Rightarrow> st')"

text \<open>The \<open>i\<close>-th slice read when reading starts at \<open>offset\<close>.\<close>

definition chunk_at :: "File \<Rightarrow> nat \<Rightarrow> nat \<Rightarrow> byte list" where
  "chunk_at f offset i = take CHUNK_SIZE (drop (offset + i * CHUNK_SIZE) (content f))"



section \<open>The endpoint with relay signaling (the hook useWebRTC)\<close>

datatype ConnectionStatus = Disconnected | Connecting | Connected | Error

text \<open>
  What the hook observes of an \<^verbatim>\<open>RTCPeerConnection\<close>: its remote and local
  descriptions (\<open>None\<close> is \<^verbatim>\<open>null\<close>), the candidates \<^verbatim>\<open>addIceCandidate\<close> has taken,
  in call order, and whether \<^verbatim>\<open>close()\<close> was called. Descriptions and candidates are
  the JSON payloads of the envelopes; the hook only hands them to the transport.
\<close>

record RTCPeerConnection =
  remoteDescription :: "jvalue option"
  localDescription :: "jvalue option"
  addedIceCandidates :: "jvalue list"
  closed :: bool

text \<open>\<^verbatim>\<open>interface PeerConnection\<close>; the data channel is represented by its
  \<^verbatim>\<open>readyState\<close>, \<open>None\<close> while \<^verbatim>\<open>dataChannel\<close> is \<^verbatim>\<open>null\<close>.\<close>

record PeerConnection =
  connection :: RTCPeerConnection
  dataChannel :: "channel_state option"
  pendingIceCandidates :: "jvalue list"

record ReceivedFile =
  rf_name :: jvalue
  rf_size :: nat
  timestamp :: nat

type_synonym addr = nat

text \<open>
  The state of the hook. The \<^verbatim>\<open>PeerConnection\<close> objects are shared between the Map
  \<^verbatim>\<open>peerConnectionsRef\<close> and the closures of the handlers, so they live in a store
  (\<open>heap\<close>, with \<open>next_addr\<close> the next unused address) and the Map holds addresses.
  \<open>wsRef\<close> is \<^verbatim>\<open>wsRef.current?.readyState\<close>.
\<close>

record webrtc =
  hook_peerId :: "string option"
  connections :: "string list"
  status :: ConnectionStatus
  receivedFiles :: "ReceivedFile list"
  wsRef :: "ws_state option"
  peerConnectionsRef :: "(string \<times> addr) list"
  heap :: "addr \<Rightarrow> PeerConnection"
  next_addr :: addr
  fileMetadataRef :: "(string \<times> jvalue) list"

text \<open>
  The transport engine is not part of the repository. Its operations can throw, and
  the hook catches that, so what they do is a parameter: whether
  \<^verbatim>\<open>setRemoteDescription(new RTCSessionDescription(d))\<close> resolves, whether
  \<^verbatim>\<open>new RTCIceCandidate(c)\<close> constructs, whether \<^verbatim>\<open>addIceCandidate(c)\<close> resolves, the
  answer \<^verbatim>\<open>createAnswer\<close> and \<^verbatim>\<open>setLocalDescription\<close> produce for an offer and the
  offer \<^verbatim>\<open>createOffer\<close> and \<^verbatim>\<open>setLocalDescription\<close> produce for a peer (\<open>None\<close> when
  one of the two throws).
\<close>

record transport =
  setRemoteDescription_ok :: "jvalue \<Rightarrow> bool"
  RTCIceCandidate_ok :: "jvalue \<Rightarrow> bool"
  addIceCandidate_ok :: "jvalue \<Rightarrow> bool"
  createAnswer :: "jvalue \<Rightarrow> jvalue option"
  createOffer :: "string \<Rightarrow> jvalue option"

text \<open>
  What a handler does to the outside: a send on the relay socket, a send on the
  data channel of a \<^verbatim>\<open>PeerConnection\<close> (made at once, or later when
  \<^verbatim>\<open>file.arrayBuffer()\<close> resolves), a call of \<^verbatim>\<open>downloadFile\<close>.
\<close>

datatype client_effect =
    RelaySend jvalue
  | ChannelSend addr frame
  | ChannelSendLater addr frame
  | Download "byte list" jvalue

definition channel_open :: "webrtc \<Rightarrow> addr \<Rightarrow> bool" where
  "channel_open st a = (dataChannel (heap st a) = Some ch_open)"

definition updateConnectionsList :: "webrtc \<Rightarrow> webrtc" where
  "updateConnectionsList st =
     (let connList = filter (\<lambda>pid. case map_of (peerConnectionsRef st) pid of
                                       Some a \<Rightarrow> channel_open st a
                                     | None \<Rightarrow> False)
                            (map fst (peerConnectionsRef st))
      in st\<lparr>connections := connList,
            status := (if connList \<noteq> [] then Connected
                       else if wsRef st = Some OPEN then Disconnected
                       else status st)\<rparr>)"

definition new_RTCPeerConnection :: RTCPeerConnection where
  "new_RTCPeerConnection =
     \<lparr>remoteDescription = None, localDescription = None, addedIceCandidates = [], closed = False\<rparr>"

text \<open>\<^verbatim>\<open>createPeerConnection\<close>: the initiator creates the data channel at once (it
  starts in the state \<^verbatim>\<open>connecting\<close>), the responder gets it with \<^verbatim>\<open>ondatachannel\<close>.\<close>

definition createPeerConnection :: "webrtc \<Rightarrow> string \<Rightarrow> bool \<Rightarrow> webrtc \<times> addr" where
  "createPeerConnection st remotePeerId isInitiator =
     (let a = next_addr st;
          peerConn = \<lparr>connection = new_RTCPeerConnection,
                      dataChannel = (if isInitiator then Some ch_connecting else None),
                      pendingIceCandidates = []\<rparr>
      in (st\<lparr>heap := (heap st)(a := peerConn),
             next_addr := Suc a,
             peerConnectionsRef := AList.update remotePeerId a (peerConnectionsRef st)\<rparr>, a))"

text \<open>\<^verbatim>\<open>setupDataChannel\<close> stores the channel; \<^verbatim>\<open>channel.onopen\<close> and
  \<^verbatim>\<open>channel.onclose\<close> run after the browser has changed its \<^verbatim>\<open>readyState\<close>.\<close>

definition setupDataChannel :: "webrtc \<Rightarrow> addr \<Rightarrow> channel_state \<Rightarrow> webrtc" where
  "setupDataChannel st a c = st\<lparr>heap := (heap st)(a := (heap st a)\<lparr>dataChannel := Some c\<rparr>)\<rparr>"

definition channel_onopen :: "webrtc \<Rightarrow> addr \<Rightarrow> webrtc" where
  "channel_onopen st a = updateConnectionsList (setupDataChannel st a ch_open)"

definition channel_onclose :: "webrtc \<Rightarrow> addr \<Rightarrow> webrtc" where
  "channel_onclose st a = updateConnectionsList (setupDataChannel st a ch_closed)"

subsection \<open>Incoming data\<close>

text \<open>
  \<^verbatim>\<open>event.data\<close> of a data channel message: a string (represented by its
  \<^verbatim>\<open>JSON.parse\<close>), a Blob, an ArrayBuffer, or something else.
\<close>

datatype incoming = DString js_text | DBlob "byte list" | DArrayBuffer "byte list" | DOther

text \<open>\<^verbatim>\<open>metadata?.name || `file-${Date.now()}`\<close>\<close>

definition filename_for :: "jvalue option \<Rightarrow> nat \<Rightarrow> jvalue" where
  "filename_for metadata now =
     (case metadata of
        None \<Rightarrow> JStr (''file-'' @ string_of_nat now)
      | Some m \<Rightarrow>
          (case member m ''name'' of
             None \<Rightarrow> JStr (''file-'' @ string_of_nat now)
           | Some n \<Rightarrow> if truthy n then n else JStr (''file-'' @ string_of_nat now)))"

text \<open>The two branches for a Blob and for an ArrayBuffer do the same with the
  bytes; \<open>now\<close> is the clock, read for the name and for the time stamp.\<close>

definition finalize_file :: "nat \<Rightarrow> webrtc \<Rightarrow> byte list \<Rightarrow> string \<Rightarrow> webrtc \<times> client_effect list" where
  "finalize_file now st bytes fromPeerId =
     (let metadata = map_of (fileMetadataRef st) fromPeerId;
          filename = filename_for metadata now
      in (st\<lparr>receivedFiles := receivedFiles st
                 @ [\<lparr>rf_name = filename, rf_size = length bytes, timestamp = now\<rparr>],
             fileMetadataRef := AList.delete fromPeerId (fileMetadataRef st)\<rparr>,
          [Download bytes filename]))"

text \<open>\<^verbatim>\<open>handleIncomingData\<close>. A string that is no metadata message (no JSON, no
  object, another \<^verbatim>\<open>type\<close>) reaches the last \<^verbatim>\<open>else\<close>, which only logs.\<close>

definition handleIncomingData :: "nat \<Rightarrow> webrtc \<Rightarrow> incoming \<Rightarrow> string \<Rightarrow> webrtc \<times> client_effect list" where
  "handleIncomingData now st data fromPeerId =
     (case data of
        DString t \<Rightarrow>
          (case t of
             Some (JObj fs) \<Rightarrow>
               if map_of fs ''type'' = Some (JStr ''file-metadata'')
               then (st\<lparr>fileMetadataRef := AList.update fromPeerId (JObj fs) (fileMetadataRef st)\<rparr>, [])
               else (st, [])
           | _ \<Rightarrow> (st, []))
      | DBlob bytes \<Rightarrow> finalize_file now st bytes fromPeerId
      | DArrayBuffer bytes \<Rightarrow> finalize_file now st bytes fromPeerId
      | DOther \<Rightarrow> (st, []))"

subsection \<open>Signaling\<close>

text \<open>
  The messages the relay delivers, decoded: the relay writes \<^verbatim>\<open>fromPeerId\<close>, a
  string, into every envelope it forwards, and \<^verbatim>\<open>peer-id\<close> and \<^verbatim>\<open>peer-disconnected\<close>
  carry an identifier it generated. \<open>SOther\<close> is a message of any other \<^verbatim>\<open>type\<close>.
\<close>

datatype signal =
    SPeerId string
  | SOffer string jvalue
  | SAnswer string jvalue
  | SIceCandidate string jvalue
  | SPeerDisconnected string
  | SError
  | SOther

text \<open>The loop \<^verbatim>\<open>for (const candidate of peerConn.pendingIceCandidates) await
  addIceCandidate(candidate)\<close>: the result says whether it ran to its end; a
  rejected candidate ends it with an exception.\<close>

fun add_pending :: "transport \<Rightarrow> jvalue list \<Rightarrow> RTCPeerConnection \<Rightarrow> RTCPeerConnection \<times> bool" where
  "add_pending tr [] pc = (pc, True)"
| "add_pending tr (candidate # rest) pc =
     (if addIceCandidate_ok tr candidate
      then add_pending tr rest (pc\<lparr>addedIceCandidates := addedIceCandidates pc @ [candidate]\<rparr>)
      else (pc, False))"

text \<open>
  What the \<^verbatim>\<open>offer\<close> and the \<^verbatim>\<open>answer\<close> case share: \<^verbatim>\<open>setRemoteDescription\<close>, the
  loop over the pending candidates, \<^verbatim>\<open>peerConn.pendingIceCandidates = []\<close>. The
  result says whether all of it ran without an exception. The remote description
  is set when \<^verbatim>\<open>setRemoteDescription\<close> resolves, and the handler goes on in the same
  turn; the \<^verbatim>\<open>await\<close>s after that point are taken to complete one after the other
  with no other handler in between.
\<close>

definition apply_remote :: "transport \<Rightarrow> PeerConnection \<Rightarrow> jvalue \<Rightarrow> PeerConnection \<times> bool" where
  "apply_remote tr peerConn description =
     (if \<not> setRemoteDescription_ok tr description then (peerConn, False)
      else (case add_pending tr (pendingIceCandidates peerConn)
                   ((connection peerConn)\<lparr>remoteDescription := Some description\<rparr>) of
              (pc, True) \<Rightarrow> (peerConn\<lparr>connection := pc, pendingIceCandidates := []\<rparr>, True)
            | (pc, False) \<Rightarrow> (peerConn\<lparr>connection := pc\<rparr>, False)))"

definition answer_envelope :: "string \<Rightarrow> jvalue \<Rightarrow> jvalue" where
  "answer_envelope fromPeerId answer =
     JObj [(''type'', JStr ''answer''), (''targetPeerId'', JStr fromPeerId), (''answer'', answer)]"

definition offer_envelope :: "string \<Rightarrow> jvalue \<Rightarrow> jvalue" where
  "offer_envelope remotePeerId offer =
     JObj [(''type'', JStr ''offer''), (''targetPeerId'', JStr remotePeerId), (''offer'', offer)]"

text \<open>
  The \<^verbatim>\<open>offer\<close> case up to its first \<^verbatim>\<open>await\<close>: a record that exists ends the
  handler; otherwise the record is created and \<^verbatim>\<open>setRemoteDescription\<close> is under
  way. Other handlers can run before the handler goes on.
\<close>

definition offer_received :: "webrtc \<Rightarrow> string \<Rightarrow> webrtc \<times> addr option" where
  "offer_received st fromPeerId =
     (if map_of (peerConnectionsRef st) fromPeerId \<noteq> None then (st, None)
      else (case createPeerConnection st fromPeerId False of (st', a) \<Rightarrow> (st', Some a)))"

text \<open>The rest of the \<^verbatim>\<open>offer\<close> case, on the record \<open>a\<close> the handler created.\<close>

definition offer_continue :: "transport \<Rightarrow> webrtc \<Rightarrow> addr \<Rightarrow> string \<Rightarrow> jvalue \<Rightarrow>
    webrtc \<times> client_effect list" where
  "offer_continue tr st a fromPeerId offer =
     (case apply_remote tr (heap st a) offer of
        (peerConn, False) \<Rightarrow> (st\<lparr>heap := (heap st)(a := peerConn), status := Error\<rparr>, [])
      | (peerConn, True) \<Rightarrow>
          (case createAnswer tr offer of
             None \<Rightarrow> (st\<lparr>heap := (heap st)(a := peerConn), status := Error\<rparr>, [])
           | Some answer \<Rightarrow>
               (st\<lparr>heap := (heap st)(a := peerConn\<lparr>connection :=
                        (connection peerConn)\<lparr>localDescription := Some answer\<rparr>\<rparr>)\<rparr>,
                if wsRef st = Some OPEN then [RelaySend (answer_envelope fromPeerId answer)] else [])))"

definition handle_offer :: "transport \<Rightarrow> webrtc \<Rightarrow> string \<Rightarrow> jvalue \<Rightarrow> webrtc \<times> client_effect list" where
  "handle_offer tr st fromPeerId offer =
     (case offer_received st fromPeerId of
        (st', None) \<Rightarrow> (st', [])
      | (st', Some a) \<Rightarrow> offer_continue tr st' a fromPeerId offer)"

definition handle_answer :: "transport \<Rightarrow> webrtc \<Rightarrow> string \<Rightarrow> jvalue \<Rightarrow> webrtc \<times> client_effect list" where
  "handle_answer tr st fromPeerId answer =
     (case map_of (peerConnectionsRef st) fromPeerId of
        None \<Rightarrow> (st, [])
      | Some a \<Rightarrow>
          (case apply_remote tr (heap st a) answer of
             (peerConn, True) \<Rightarrow> (st\<lparr>heap := (heap st)(a := peerConn)\<rparr>, [])
           | (peerConn, False) \<Rightarrow> (st\<lparr>heap := (heap st)(a := peerConn), status := Error\<rparr>, [])))"

text \<open>The \<^verbatim>\<open>ice-candidate\<close> case on one record: applied at once when the remote
  description is set, queued otherwise; an exception is logged and nothing else.\<close>

definition ice_candidate :: "transport \<Rightarrow> PeerConnection \<Rightarrow> jvalue \<Rightarrow> PeerConnection" where
  "ice_candidate tr peerConn candidate =
     (if remoteDescription (connection peerConn) \<noteq> None
      then (if RTCIceCandidate_ok tr candidate \<and> addIceCandidate_ok tr candidate
            then peerConn\<lparr>connection := (connection peerConn)
                   \<lparr>addedIceCandidates := addedIceCandidates (connection peerConn) @ [candidate]\<rparr>\<rparr>
            else peerConn)
      else (if RTCIceCandidate_ok tr candidate
            then peerConn\<lparr>pendingIceCandidates := pendingIceCandidates peerConn @ [candidate]\<rparr>
            else peerConn))"

definition handle_ice_candidate :: "transport \<Rightarrow> webrtc \<Rightarrow> string \<Rightarrow> jvalue \<Rightarrow> webrtc" where
  "handle_ice_candidate tr st fromPeerId candidate =
     (case map_of (peerConnectionsRef st) fromPeerId of
        None \<Rightarrow> st
      | Some a \<Rightarrow> st\<lparr>heap := (heap st)(a := ice_candidate tr (heap st a) candidate)\<rparr>)"

definition handle_peer_disconnected :: "webrtc \<Rightarrow> string \<Rightarrow> webrtc" where
  "handle_peer_disconnected st disconnectedPeerId =
     (case map_of (peerConnectionsRef st) disconnectedPeerId of
        None \<Rightarrow> st
      | Some a \<Rightarrow>
          updateConnectionsList
            (st\<lparr>heap := (heap st)(a := (heap st a)\<lparr>connection := (connection (heap st a))\<lparr>closed := True\<rparr>\<rparr>),
                peerConnectionsRef := AList.delete disconnectedPeerId (peerConnectionsRef st)\<rparr>))"

definition handleSignalingMessage :: "transport \<Rightarrow> webrtc \<Rightarrow> signal \<Rightarrow> webrtc \<times> client_effect list" where
  "handleSignalingMessage tr st message =
     (case message of
        SPeerId p \<Rightarrow> (st\<lparr>hook_peerId := Some p, status := Disconnected\<rparr>, [])
      | SOffer fromPeerId offer \<Rightarrow> handle_offer tr st fromPeerId offer
      | SAnswer fromPeerId answer \<Rightarrow> handle_answer tr st fromPeerId answer
      | SIceCandidate fromPeerId candidate \<Rightarrow> (handle_ice_candidate tr st fromPeerId candidate, [])
      | SPeerDisconnected p \<Rightarrow> (handle_peer_disconnected st p, [])
      | SError \<Rightarrow> (st\<lparr>status := Error\<rparr>, [])
      | SOther \<Rightarrow> (st, []))"

text \<open>The handlers of the relay socket, run after the browser has changed its
  \<^verbatim>\<open>readyState\<close>.\<close>

definition ws_onopen :: "webrtc \<Rightarrow> webrtc" where
  "ws_onopen st = st\<lparr>wsRef := Some OPEN, status := Disconnected\<rparr>"

definition ws_onerror :: "webrtc \<Rightarrow> webrtc" where
  "ws_onerror st = st\<lparr>status := Error\<rparr>"

definition ws_onclose :: "webrtc \<Rightarrow> webrtc" where
  "ws_onclose st = st\<lparr>wsRef := Some CLOSED, status := Error\<rparr>"

definition connectToPeer :: "transport \<Rightarrow> webrtc \<Rightarrow> string \<Rightarrow> webrtc \<times> client_effect list" where
  "connectToPeer tr st remotePeerId =
     (if wsRef st \<noteq> Some OPEN then (st, [])
      else if map_of (peerConnectionsRef st) remotePeerId \<noteq> None then (st, [])
      else if Some remotePeerId = hook_peerId st then (st, [])
      else (case createPeerConnection (st\<lparr>status := Connecting\<rparr>) remotePeerId True of
              (st', a) \<Rightarrow>
                (case createOffer tr remotePeerId of
                   None \<Rightarrow> (st'\<lparr>status := Error\<rparr>, [])
                 | Some offer \<Rightarrow>
                     (st'\<lparr>heap := (heap st')(a := (heap st' a)\<lparr>connection :=
                              (connection (heap st' a))\<lparr>localDescription := Some offer\<rparr>\<rparr>)\<rparr>,
                      [RelaySend (offer_envelope remotePeerId offer)]))))"

subsection \<open>Sending a file\<close>

definition file_metadata :: "File \<Rightarrow> jvalue" where
  "file_metadata f =
     JObj [(''type'', JStr ''file-metadata''), (''name'', JStr (file_name f)),
           (''size'', JNum (int (file_size f))), (''mimeType'', JStr (file_type f))]"

definition openConnections :: "webrtc \<Rightarrow> (string \<times> addr) list" where
  "openConnections st = filter (\<lambda>(remotePeerId, a). channel_open st a) (peerConnectionsRef st)"

text \<open>\<^verbatim>\<open>sendFile\<close> of the hook: the metadata goes out at once on every open channel,
  the bytes when \<^verbatim>\<open>file.arrayBuffer()\<close> has resolved.\<close>

definition webrtc_sendFile :: "webrtc \<Rightarrow> File \<Rightarrow> bool \<times> client_effect list" where
  "webrtc_sendFile st f =
     (if openConnections st = [] then (False, [])
      else (True,
            map (\<lambda>(remotePeerId, a). ChannelSend a (Text (Some (file_metadata f)))) (openConnections st)
            @ map (\<lambda>(remotePeerId, a). ChannelSendLater a (Binary (content f))) (openConnections st)))"

definition sendFileToPeer :: "webrtc \<Rightarrow> File \<Rightarrow> string \<Rightarrow> bool \<times> client_effect list" where
  "sendFileToPeer st f remotePeerId =
     (case map_of (peerConnectionsRef st) remotePeerId of
        None \<Rightarrow> (False, [])
      | Some a \<Rightarrow>
          if dataChannel (heap st a) \<noteq> Some ch_open then (False, [])
          else (True, [ChannelSend a (Text (Some (file_metadata f))),
                       ChannelSendLater a (Binary (content f))]))"

text \<open>The state of the hook when it is mounted.\<close>

definition initial_webrtc :: webrtc where
  "initial_webrtc =
     \<lparr>hook_peerId = None, connections = [], status = Disconnected, receivedFiles = [],
      wsRef = None, peerConnectionsRef = [],
      heap = (\<lambda>a. \<lparr>connection = new_RTCPeerConnection, dataChannel = None,
                      pendingIceCandidates = []\<rparr>),
      next_addr = 0, fileMetadataRef = []\<rparr>"

text \<open>A transport that accepts every description and candidate and answers an
  offer with a fixed description, for running the handlers on examples.\<close>

definition accepting_transport :: transport where
  "accepting_transport =
     \<lparr>setRemoteDescription_ok = (\<lambda>d. True), RTCIceCandidate_ok = (\<lambda>c. True),
      addIceCandidate_ok = (\<lambda>c. True), createAnswer = (\<lambda>offer. Some (JStr ''answer-sdp'')),
      createOffer = (\<lambda>remotePeerId. Some (JStr ''offer-sdp''))\<rparr>"


section \<open>The endpoint without relay (the hook usePeerJS)\<close>

text \<open>
  A \<^verbatim>\<open>DataConnection\<close> of the PeerJS library is an object with the identifier of
  the remote peer; \<open>conn_id\<close> tells two connections to the same peer apart.
\<close>

record DataConnection =
  conn_id :: nat
  peer :: string

text \<open>
  The state of the hook: the identifier \<^verbatim>\<open>id\<close> it generated, whether
  \<^verbatim>\<open>peerRef.current\<close> is set, the states \<^verbatim>\<open>peerId\<close>, \<^verbatim>\<open>status\<close> and \<^verbatim>\<open>connections\<close>,
  and the Map \<^verbatim>\<open>connectionsRef\<close>. Two lists record what was done to connection
  objects: \<open>handled\<close> holds the connections \<^verbatim>\<open>handleConnection\<close> has put handlers
  on, \<open>closed_conns\<close> the connections \<^verbatim>\<open>close()\<close> was called on.
\<close>

record peerjs =
  local_id :: string
  peerRef :: bool
  pj_peerId :: "string option"
  pj_status :: ConnectionStatus
  pj_connections :: "string list"
  connectionsRef :: "(string \<times> DataConnection) list"
  handled :: "DataConnection list"
  closed_conns :: "DataConnection list"

definition peer_on_open :: "peerjs \<Rightarrow> peerjs" where
  "peer_on_open st = st\<lparr>pj_peerId := Some (local_id st), pj_status := Disconnected, peerRef := True\<rparr>"

definition handleConnection :: "peerjs \<Rightarrow> DataConnection \<Rightarrow> peerjs" where
  "handleConnection st conn = st\<lparr>handled := handled st @ [conn]\<rparr>"

text \<open>
  \<^verbatim>\<open>newPeer.on('connection')\<close>. \<^verbatim>\<open>id < conn.peer\<close> compares two strings code unit by
  code unit; on \<open>string\<close> that is the lexicographic order of the characters.
\<close>

definition peer_on_connection :: "peerjs \<Rightarrow> DataConnection \<Rightarrow> peerjs" where
  "peer_on_connection st conn =
     (case map_of (connectionsRef st) (peer conn) of
        Some existingConn \<Rightarrow>
          if local_id st < peer conn
          then st\<lparr>closed_conns := closed_conns st @ [conn]\<rparr>
          else handleConnection
                 (st\<lparr>closed_conns := closed_conns st @ [existingConn],
                     connectionsRef := AList.delete (peer conn) (connectionsRef st)\<rparr>) conn
      | None \<Rightarrow> handleConnection st conn)"

definition pj_updateConnectionsList :: "peerjs \<Rightarrow> peerjs" where
  "pj_updateConnectionsList st = st\<lparr>pj_connections := map fst (connectionsRef st)\<rparr>"

text \<open>The handlers \<^verbatim>\<open>handleConnection\<close> puts on a connection.\<close>

definition conn_on_open :: "peerjs \<Rightarrow> DataConnection \<Rightarrow> peerjs" where
  "conn_on_open st conn =
     (pj_updateConnectionsList
        (st\<lparr>connectionsRef := AList.update (peer conn) conn (connectionsRef st)\<rparr>))
     \<lparr>pj_status := Connected\<rparr>"

definition conn_on_close :: "peerjs \<Rightarrow> DataConnection \<Rightarrow> peerjs" where
  "conn_on_close st conn =
     (let st' = pj_updateConnectionsList
                  (st\<lparr>connectionsRef := AList.delete (peer conn) (connectionsRef st)\<rparr>)
      in if connectionsRef st' = [] then st'\<lparr>pj_status := Disconnected\<rparr> else st')"

text \<open>\<^verbatim>\<open>connectToPeer\<close>; \<open>cid\<close> names the connection \<^verbatim>\<open>peerRef.current.connect\<close>
  returns.\<close>

definition pj_connectToPeer :: "peerjs \<Rightarrow> string \<Rightarrow> nat \<Rightarrow> peerjs" where
  "pj_connectToPeer st remotePeerId cid =
     (if \<not> peerRef st then st
      else if map_of (connectionsRef st) remotePeerId \<noteq> None then st
      else if Some remotePeerId = pj_peerId st then st
      else handleConnection (st\<lparr>pj_status := Connecting\<rparr>) \<lparr>conn_id = cid, peer = remotePeerId\<rparr>)"

text \<open>The connections that have handlers and were not closed by the hook.\<close>

definition live :: "peerjs \<Rightarrow> DataConnection list" where
  "live st = filter (\<lambda>c. c \<notin> set (closed_conns st)) (handled st)"

text \<open>The hook of the endpoint \<open>i\<close> once its peer is open.\<close>

definition opened_peerjs :: "string \<Rightarrow> peerjs" where
  "opened_peerjs i =
     \<lparr>local_id = i, peerRef = True, pj_peerId = Some i, pj_status = Disconnected,
      pj_connections = [], connectionsRef = [], handled = [], closed_conns = []\<rparr>"


section \<open>Properties of the relay hub\<close>

lemma map_of_update_same: "map_of (AList.update k v fs) k = Some v"
  by (simp add: AList.update_conv')

lemma map_of_update_other: "k' \<noteq> k \<Longrightarrow> map_of (AList.update k v fs) k' = map_of fs k'"
  by (simp add: AList.update_conv')

lemma js_template_string: "js_template num (Some (JStr s)) = Some s"
  by (simp add: js_template_def)

lemma js_template_undefined: "js_template num None = Some ''undefined''"
  by (simp add: js_template_def)

lemma forward_unavailable:
  assumes "\<forall>targetPeer. peers_get peers (map_of fs ''targetPeerId'') = Some targetPeer
             \<longrightarrow> rs targetPeer \<noteq> OPEN"
  shows "forward num rs peerId ws peers fs = not_available num ws (map_of fs ''targetPeerId'')"
  using assms by (simp add: forward_def split: option.splits)

text \<open>
  Claim C3 fails as stated. The sender \<open>alice\<close> sends an offer whose target is the
  object \<^verbatim>\<open>{"toString": 1}\<close>. No endpoint is registered under it, and the hub does not
  reply \<^verbatim>\<open>Peer <target> not available\<close>: its log line cannot print the target, the
  exception reaches the \<^verbatim>\<open>catch\<close> block, and the reply is
  \<^verbatim>\<open>Invalid message format\<close>. (No number is printed here; the printer given is
  a decimal one.)
\<close>

theorem relay_unprintable_target_counterexample:
  "on_message (string_of_nat \<circ> nat) all_open ''alice'' 0 [(''alice'', 0)]
      (Some (JObj [(''type'', JStr ''offer''),
                   (''targetPeerId'', JObj [(''toString'', JNum 1)]),
                   (''offer'', JStr ''sdp'')]))
    = ([(''alice'', 0)],
       [Send 0 (JObj [(''type'', JStr ''error''), (''message'', JStr ''Invalid message format'')])])
   \<and> take 5 ''Invalid message format'' \<noteq> ''Peer ''"
  by (simp add: on_message_def forward_def peers_get_def not_available_def js_template_def
      error_envelope_def)

text \<open>
  Claim C3, amended. For an \<^verbatim>\<open>offer\<close>, \<^verbatim>\<open>answer\<close> or \<^verbatim>\<open>ice-candidate\<close> envelope the
  registry is the same afterwards and the hub makes exactly one send:
  \<^item> when the target identifier is registered and that socket is open, to the
    target, of the envelope with \<^verbatim>\<open>fromPeerId\<close> set to the sender's identifier and
    every other field as received;
  \<^item> when the target is a string that is not registered, or whose socket is not
    open, to the sender, of \<^verbatim>\<open>{type: "error", message: "Peer <target> not available"}\<close>
    with the target string in it;
  \<^item> when the envelope has no target, to the sender, of the same error with
    \<^verbatim>\<open>undefined\<close> for the target;
  \<^item> when the target is no string (so never registered), to the sender, of the
    same error with the target as JavaScript prints it, or of
    \<^verbatim>\<open>{type: "error", message: "Invalid message format"}\<close> when JavaScript cannot
    print it.
\<close>

theorem relay_forwards_or_reports:
  assumes kind: "map_of fs ''type'' = Some (JStr t)"
    and sig: "t = ''offer'' \<or> t = ''answer'' \<or> t = ''ice-candidate''"
  shows "(\<forall>target targetPeer.
            map_of fs ''targetPeerId'' = Some (JStr target) \<and>
            map_of peers target = Some targetPeer \<and> rs targetPeer = OPEN \<longrightarrow>
            (\<exists>fwd. on_message num rs peerId ws peers (Some (JObj fs))
                     = (peers, [Send targetPeer (JObj fwd)])
                \<and> map_of fwd ''fromPeerId'' = Some (JStr peerId)
                \<and> (\<forall>k. k \<noteq> ''fromPeerId'' \<longrightarrow> map_of fwd k = map_of fs k)))
       \<and> (\<forall>target.
            map_of fs ''targetPeerId'' = Some (JStr target) \<and>
            (\<forall>targetPeer. map_of peers target = Some targetPeer \<longrightarrow> rs targetPeer \<noteq> OPEN) \<longrightarrow>
            on_message num rs peerId ws peers (Some (JObj fs)) =
              (peers, [Send ws (JObj [(''type'', JStr ''error''),
                 (''message'', JStr (''Peer '' @ target @ '' not available''))])]))
       \<and> (map_of fs ''targetPeerId'' = None \<longrightarrow>
            on_message num rs peerId ws peers (Some (JObj fs)) =
              (peers, [Send ws (JObj [(''type'', JStr ''error''),
                 (''message'', JStr ''Peer undefined not available'')])]))
       \<and> (\<forall>v. map_of fs ''targetPeerId'' = Some v \<and> (\<forall>target. v \<noteq> JStr target) \<longrightarrow>
            on_message num rs peerId ws peers (Some (JObj fs)) =
              (peers, [Send ws (JObj [(''type'', JStr ''error''),
                 (''message'',
                  JStr (case js_string num v of
                          Some printed \<Rightarrow> ''Peer '' @ printed @ '' not available''
                        | None \<Rightarrow> ''Invalid message format''))])]))"
proof -
  have msg: "on_message num rs peerId ws peers (Some (JObj fs))
      = (peers, forward num rs peerId ws peers fs)"
    using kind sig by (auto simp: on_message_def)
  have part1: "\<exists>fwd. on_message num rs peerId ws peers (Some (JObj fs))
                     = (peers, [Send targetPeer (JObj fwd)])
                \<and> map_of fwd ''fromPeerId'' = Some (JStr peerId)
                \<and> (\<forall>k. k \<noteq> ''fromPeerId'' \<longrightarrow> map_of fwd k = map_of fs k)"
    if a: "map_of fs ''targetPeerId'' = Some (JStr target) \<and>
            map_of peers target = Some targetPeer \<and> rs targetPeer = OPEN"
    for target targetPeer
  proof -
    let ?fwd = "AList.update ''fromPeerId'' (JStr peerId) fs"
    have "on_message num rs peerId ws peers (Some (JObj fs)) = (peers, [Send targetPeer (JObj ?fwd)])"
      unfolding msg using a by (simp add: forward_def peers_get_def)
    moreover have "map_of ?fwd ''fromPeerId'' = Some (JStr peerId)"
      by (rule map_of_update_same)
    moreover have "\<forall>k. k \<noteq> ''fromPeerId'' \<longrightarrow> map_of ?fwd k = map_of fs k"
      by (simp add: map_of_update_other)
    ultimately show ?thesis by blast
  qed
  have part2: "on_message num rs peerId ws peers (Some (JObj fs)) =
              (peers, [Send ws (JObj [(''type'', JStr ''error''),
                 (''message'', JStr (''Peer '' @ target @ '' not available''))])])"
    if a: "map_of fs ''targetPeerId'' = Some (JStr target) \<and>
            (\<forall>targetPeer. map_of peers target = Some targetPeer \<longrightarrow> rs targetPeer \<noteq> OPEN)"
    for target
  proof -
    have "\<forall>targetPeer. peers_get peers (map_of fs ''targetPeerId'') = Some targetPeer
             \<longrightarrow> rs targetPeer \<noteq> OPEN"
      using a by (simp add: peers_get_def)
    then have "forward num rs peerId ws peers fs = not_available num ws (map_of fs ''targetPeerId'')"
      by (rule forward_unavailable)
    then show ?thesis
      unfolding msg using a by (simp add: not_available_def js_template_string error_envelope_def)
  qed
  have part3: "on_message num rs peerId ws peers (Some (JObj fs)) =
              (peers, [Send ws (JObj [(''type'', JStr ''error''),
                 (''message'', JStr ''Peer undefined not available'')])])"
    if a: "map_of fs ''targetPeerId'' = None"
  proof -
    have "forward num rs peerId ws peers fs = not_available num ws (map_of fs ''targetPeerId'')"
      by (rule forward_unavailable) (simp add: a peers_get_def)
    then show ?thesis
      unfolding msg using a by (simp add: not_available_def js_template_undefined error_envelope_def)
  qed
  have part4: "on_message num rs peerId ws peers (Some (JObj fs)) =
              (peers, [Send ws (JObj [(''type'', JStr ''error''),
                 (''message'',
                  JStr (case js_string num v of
                          Some printed \<Rightarrow> ''Peer '' @ printed @ '' not available''
                        | None \<Rightarrow> ''Invalid message format''))])])"
    if a: "map_of fs ''targetPeerId'' = Some v \<and> (\<forall>target. v \<noteq> JStr target)"
    for v
  proof -
    have "peers_get peers (Some v) = None"
      using a by (cases v) (simp_all add: peers_get_def)
    then have "forward num rs peerId ws peers fs = not_available num ws (map_of fs ''targetPeerId'')"
      using a by (intro forward_unavailable) simp
    then show ?thesis
      unfolding msg using a
      by (simp add: not_available_def js_template_def error_envelope_def split: option.splits)
  qed
  from part1 part2 part3 part4 show ?thesis by blast
qed

text \<open>
  Claim C3 on examples: \<open>alice\<close> sends an offer to \<open>ghost\<close>, who is not
  registered, to \<open>bob\<close>, who is registered and open, without a target, and with the
  target \<^verbatim>\<open>null\<close>.
\<close>

theorem relay_forwards_or_reports_witness:
  "on_message (string_of_nat \<circ> nat) all_open ''alice'' 0 [(''alice'', 0), (''bob'', 1)]
      (Some (JObj [(''type'', JStr ''offer''), (''targetPeerId'', JStr ''ghost''), (''offer'', JStr ''sdp'')]))
    = ([(''alice'', 0), (''bob'', 1)],
       [Send 0 (JObj [(''type'', JStr ''error''), (''message'', JStr ''Peer ghost not available'')])])
   \<and> (\<exists>fwd. on_message (string_of_nat \<circ> nat) all_open ''alice'' 0 [(''alice'', 0), (''bob'', 1)]
      (Some (JObj [(''type'', JStr ''offer''), (''targetPeerId'', JStr ''bob''), (''offer'', JStr ''sdp'')]))
    = ([(''alice'', 0), (''bob'', 1)], [Send 1 (JObj fwd)]) \<and> map_of fwd ''fromPeerId'' = Some (JStr ''alice''))
   \<and> on_message (string_of_nat \<circ> nat) all_open ''alice'' 0 [(''alice'', 0), (''bob'', 1)]
      (Some (JObj [(''type'', JStr ''offer''), (''offer'', JStr ''sdp'')]))
    = ([(''alice'', 0), (''bob'', 1)],
       [Send 0 (JObj [(''type'', JStr ''error''), (''message'', JStr ''Peer undefined not available'')])])
   \<and> on_message (string_of_nat \<circ> nat) all_open ''alice'' 0 [(''alice'', 0), (''bob'', 1)]
      (Some (JObj [(''type'', JStr ''offer''), (''targetPeerId'', JNull), (''offer'', JStr ''sdp'')]))
    = ([(''alice'', 0), (''bob'', 1)],
       [Send 0 (JObj [(''type'', JStr ''error''), (''message'', JStr ''Peer null not available'')])])"
proof -
  let ?num = "string_of_nat \<circ> nat"
  let ?peers = "[(''alice'', 0::nat), (''bob'', 1)]"
  let ?ghost = "[(''type'', JStr ''offer''), (''targetPeerId'', JStr ''ghost''), (''offer'', JStr ''sdp'')]"
  let ?bob = "[(''type'', JStr ''offer''), (''targetPeerId'', JStr ''bob''), (''offer'', JStr ''sdp'')]"
  let ?none = "[(''type'', JStr ''offer''), (''offer'', JStr ''sdp'')]"
  let ?null = "[(''type'', JStr ''offer''), (''targetPeerId'', JNull), (''offer'', JStr ''sdp'')]"
  have k: "''offer'' = ''offer'' \<or> ''offer'' = ''answer'' \<or> ''offer'' = ''ice-candidate''" by simp
  have g: "map_of ?ghost ''type'' = Some (JStr ''offer'')" by simp
  have b: "map_of ?bob ''type'' = Some (JStr ''offer'')" by simp
  have n: "map_of ?none ''type'' = Some (JStr ''offer'')" by simp
  have u: "map_of ?null ''type'' = Some (JStr ''offer'')" by simp
  have absent: "map_of ?ghost ''targetPeerId'' = Some (JStr ''ghost'') \<and>
      (\<forall>targetPeer. map_of ?peers ''ghost'' = Some targetPeer \<longrightarrow> all_open targetPeer \<noteq> OPEN)"
    by simp
  have present: "map_of ?bob ''targetPeerId'' = Some (JStr ''bob'') \<and>
      map_of ?peers ''bob'' = Some 1 \<and> all_open 1 = OPEN"
    by (simp add: all_open_def)
  have missing: "map_of ?none ''targetPeerId'' = None" by simp
  have null: "map_of ?null ''targetPeerId'' = Some JNull \<and> (\<forall>target. JNull \<noteq> JStr target)"
    by simp
  from relay_forwards_or_reports [OF g k, of ?peers all_open ?num "''alice''" 0] absent
  have r1: "on_message ?num all_open ''alice'' 0 ?peers (Some (JObj ?ghost)) =
      (?peers, [Send 0 (JObj [(''type'', JStr ''error''),
         (''message'', JStr (''Peer '' @ ''ghost'' @ '' not available''))])])"
    by blast
  from relay_forwards_or_reports [OF b k, of ?peers all_open ?num "''alice''" 0] present
  have r2: "\<exists>fwd. on_message ?num all_open ''alice'' 0 ?peers (Some (JObj ?bob)) = (?peers, [Send 1 (JObj fwd)])
      \<and> map_of fwd ''fromPeerId'' = Some (JStr ''alice'')"
    by blast
  from relay_forwards_or_reports [OF n k, of ?peers all_open ?num "''alice''" 0] missing
  have r3: "on_message ?num all_open ''alice'' 0 ?peers (Some (JObj ?none)) =
      (?peers, [Send 0 (JObj [(''type'', JStr ''error''),
         (''message'', JStr ''Peer undefined not available'')])])"
    by blast
  from relay_forwards_or_reports [OF u k, of ?peers all_open ?num "''alice''" 0] null
  have "on_message ?num all_open ''alice'' 0 ?peers (Some (JObj ?null)) =
      (?peers, [Send 0 (JObj [(''type'', JStr ''error''),
         (''message'',
          JStr (case js_string ?num JNull of
                  Some printed \<Rightarrow> ''Peer '' @ printed @ '' not available''
                | None \<Rightarrow> ''Invalid message format''))])])"
    by blast
  then have r4: "on_message ?num all_open ''alice'' 0 ?peers (Some (JObj ?null)) =
      (?peers, [Send 0 (JObj [(''type'', JStr ''error''),
         (''message'', JStr ''Peer null not available'')])])"
    by simp
  from r1 r2 r3 r4 show ?thesis by simp
qed

text \<open>
  Claim C9. A message that \<^verbatim>\<open>JSON.parse\<close> rejects (and likewise the JSON \<^verbatim>\<open>null\<close>)
  makes the hub send one message, an error envelope, to the sender and to nobody
  else; the hub closes nothing and the registry is unchanged.
\<close>

theorem malformed_message_reply:
  "on_message num rs peerId ws peers None = (peers, [Send ws (error_envelope ''Invalid message format'')])
   \<and> on_message num rs peerId ws peers (Some JNull) = (peers, [Send ws (error_envelope ''Invalid message format'')])
   \<and> error_envelope ''Invalid message format'' = JObj [(''type'', JStr ''error''), (''message'', JStr ''Invalid message format'')]"
  by (simp add: on_message_def error_envelope_def)

lemma sent_to_Nil [simp]: "sent_to s [] = []"
  by (simp add: sent_to_def)

lemma sent_to_Cons [simp]:
  "sent_to s (Send s' v # effs) = (if s' = s then v # sent_to s effs else sent_to s effs)"
  by (simp add: sent_to_def)

lemma sent_to_notify_absent:
  "s \<notin> snd ` set xs \<Longrightarrow> sent_to s (map (\<lambda>(k, s'). Send s' d) xs) = []"
  by (induction xs) auto

lemma sent_to_notify_present:
  "distinct (map snd xs) \<Longrightarrow> (k, s) \<in> set xs \<Longrightarrow>
   sent_to s (map (\<lambda>(k, s'). Send s' d) xs) = [d]"
proof (induction xs)
  case Nil
  then show ?case by simp
next
  case (Cons x xs)
  obtain k' s' where x: "x = (k', s')" by (cases x)
  show ?case
  proof (cases "s' = s")
    case True
    with Cons.prems x have "s \<notin> snd ` set xs" by auto
    with True x show ?thesis by (simp add: sent_to_notify_absent)
  next
    case False
    with Cons x show ?thesis by auto
  qed
qed

lemma distinct_snd_filter: "distinct (map snd xs) \<Longrightarrow> distinct (map snd (filter P xs))"
  by (induction xs) auto

lemma map_of_delete_other: "k \<noteq> peerId \<Longrightarrow> map_of (AList.delete peerId peers) k = map_of peers k"
  by (simp add: AList.delete_conv')

text \<open>
  Claim C6. When an endpoint disconnects, its identifier leaves the registry and no
  other entry changes; every remaining registered endpoint is sent exactly one
  message, \<^verbatim>\<open>{type: "peer-disconnected", peerId: <departed identifier>}\<close>, when
  its link is open, and nothing when it is not; the departed endpoint's socket and
  every unregistered socket are sent nothing. (Each socket is registered once, and
  the departed one under its own identifier.)
\<close>

theorem disconnect_notifies_remaining:
  assumes socks: "distinct (map snd peers)"
    and reg: "(peerId, ws) \<in> set peers"
  shows "fst (on_close rs peerId peers) = AList.delete peerId peers
    \<and> map_of (fst (on_close rs peerId peers)) peerId = None
    \<and> (\<forall>k. k \<noteq> peerId \<longrightarrow> map_of (fst (on_close rs peerId peers)) k = map_of peers k)
    \<and> snd (on_close rs peerId peers)
        = map (\<lambda>(k, s). Send s (JObj [(''type'', JStr ''peer-disconnected''), (''peerId'', JStr peerId)]))
              (filter (\<lambda>(k, s). rs s = OPEN) (AList.delete peerId peers))
    \<and> (\<forall>(k, s) \<in> set (fst (on_close rs peerId peers)).
          sent_to s (snd (on_close rs peerId peers)) =
            (if rs s = OPEN
             then [JObj [(''type'', JStr ''peer-disconnected''), (''peerId'', JStr peerId)]]
             else []))
    \<and> sent_to ws (snd (on_close rs peerId peers)) = []
    \<and> (\<forall>s. s \<notin> snd ` set peers \<longrightarrow> sent_to s (snd (on_close rs peerId peers)) = [])"
proof -
  let ?rest = "AList.delete peerId peers"
  let ?open = "filter (\<lambda>(pId, peerWs). rs peerWs = OPEN) ?rest"
  have effs: "snd (on_close rs peerId peers) =
      map (\<lambda>(pId, peerWs). Send peerWs (peer_disconnected_envelope peerId)) ?open"
    by (simp add: on_close_def Let_def)
  have rest: "fst (on_close rs peerId peers) = ?rest"
    by (simp add: on_close_def Let_def)
  have sub: "set ?rest \<subseteq> set peers"
    by (auto simp: AList.delete_eq)
  have d_rest: "distinct (map snd ?rest)"
    using socks by (simp add: AList.delete_eq distinct_snd_filter)
  have d_open: "distinct (map snd ?open)"
    using d_rest by (rule distinct_snd_filter)
  have gone: "ws \<notin> snd ` set ?rest"
  proof
    assume "ws \<in> snd ` set ?rest"
    then obtain k where k: "(k, ws) \<in> set ?rest" by auto
    then have "k \<noteq> peerId" by (auto simp: AList.delete_eq)
    moreover have "(k, ws) \<in> set peers" using k sub by auto
    ultimately show False
      using socks reg by (metis eq_key_imp_eq_value distinct_map fst_conv snd_conv inj_onD)
  qed
  have each: "sent_to s (snd (on_close rs peerId peers)) =
      (if rs s = OPEN then [peer_disconnected_envelope peerId] else [])"
    if "(k, s) \<in> set ?rest" for k s
  proof (cases "rs s = OPEN")
    case True
    with that have "(k, s) \<in> set ?open" by simp
    with d_open True show ?thesis
      unfolding effs by (simp add: sent_to_notify_present)
  next
    case False
    then have "s \<notin> snd ` set ?open" by auto
    with False show ?thesis
      unfolding effs by (simp add: sent_to_notify_absent)
  qed
  have none_ws: "sent_to ws (snd (on_close rs peerId peers)) = []"
    unfolding effs using gone by (intro sent_to_notify_absent) auto
  have others: "sent_to s (snd (on_close rs peerId peers)) = []" if "s \<notin> snd ` set peers" for s
  proof -
    from that sub have "s \<notin> snd ` set ?open" by auto
    then show ?thesis unfolding effs by (rule sent_to_notify_absent)
  qed
  have env: "peer_disconnected_envelope peerId
      = JObj [(''type'', JStr ''peer-disconnected''), (''peerId'', JStr peerId)]"
    by (simp add: peer_disconnected_envelope_def)
  have listed: "snd (on_close rs peerId peers)
        = map (\<lambda>(k, s). Send s (JObj [(''type'', JStr ''peer-disconnected''), (''peerId'', JStr peerId)]))
              (filter (\<lambda>(k, s). rs s = OPEN) (AList.delete peerId peers))"
    unfolding effs env by (rule refl)
  have each': "\<forall>(k, s) \<in> set (fst (on_close rs peerId peers)).
          sent_to s (snd (on_close rs peerId peers)) =
            (if rs s = OPEN
             then [JObj [(''type'', JStr ''peer-disconnected''), (''peerId'', JStr peerId)]]
             else [])"
    using each unfolding rest env by blast
  have m1: "map_of (fst (on_close rs peerId peers)) peerId = None"
    unfolding rest by (simp add: AList.delete_conv')
  have m2: "\<forall>k. k \<noteq> peerId \<longrightarrow> map_of (fst (on_close rs peerId peers)) k = map_of peers k"
    unfolding rest by (simp add: map_of_delete_other)
  have o: "\<forall>s. s \<notin> snd ` set peers \<longrightarrow> sent_to s (snd (on_close rs peerId peers)) = []"
    using others by blast
  from rest m1 m2 listed each' none_ws o show ?thesis by (intro conjI)
qed

theorem disconnect_notifies_remaining_witness:
  "distinct (map snd [(''alice'', 0::nat), (''bob'', 1), (''carol'', 2)])
   \<and> (''alice'', 0) \<in> set [(''alice'', 0::nat), (''bob'', 1), (''carol'', 2)]
   \<and> fst (on_close (\<lambda>s. if s = 2 then CLOSED else OPEN) ''alice''
            [(''alice'', 0), (''bob'', 1), (''carol'', 2)]) = [(''bob'', 1), (''carol'', 2)]
   \<and> sent_to 1 (snd (on_close (\<lambda>s. if s = 2 then CLOSED else OPEN) ''alice''
            [(''alice'', 0), (''bob'', 1), (''carol'', 2)]))
       = [JObj [(''type'', JStr ''peer-disconnected''), (''peerId'', JStr ''alice'')]]
   \<and> sent_to 2 (snd (on_close (\<lambda>s. if s = 2 then CLOSED else OPEN) ''alice''
            [(''alice'', 0), (''bob'', 1), (''carol'', 2)])) = []
   \<and> sent_to 0 (snd (on_close (\<lambda>s. if s = 2 then CLOSED else OPEN) ''alice''
            [(''alice'', 0), (''bob'', 1), (''carol'', 2)])) = []"
proof -
  let ?P = "[(''alice'', 0::nat), (''bob'', 1), (''carol'', 2)]"
  let ?R = "\<lambda>s::nat. if s = 2 then CLOSED else OPEN"
  have h1: "distinct (map snd ?P)" by simp
  have h2: "(''alice'', 0) \<in> set ?P" by simp
  note t = disconnect_notifies_remaining [OF h1 h2, of ?R]
  from t have "fst (on_close ?R ''alice'' ?P) = AList.delete ''alice'' ?P" by blast
  then have a: "fst (on_close ?R ''alice'' ?P) = [(''bob'', 1), (''carol'', 2)]" by simp
  from t have "\<forall>(k, s) \<in> set (fst (on_close ?R ''alice'' ?P)).
      sent_to s (snd (on_close ?R ''alice'' ?P)) =
        (if ?R s = OPEN
         then [JObj [(''type'', JStr ''peer-disconnected''), (''peerId'', JStr ''alice'')]]
         else [])"
    by blast
  with a have b: "sent_to 1 (snd (on_close ?R ''alice'' ?P))
        = [JObj [(''type'', JStr ''peer-disconnected''), (''peerId'', JStr ''alice'')]]"
    and c: "sent_to 2 (snd (on_close ?R ''alice'' ?P)) = []"
    by simp_all
  from t have d: "sent_to 0 (snd (on_close ?R ''alice'' ?P)) = []" by blast
  from h1 h2 a b c d show ?thesis by blast
qed


section \<open>Properties of the chunked transfer\<close>

lemma CHUNK_SIZE_pos: "0 < CHUNK_SIZE"
  by (simp add: CHUNK_SIZE_def)

lemma ceil_div_step:
  fixes c :: nat
  assumes "0 < c" "c < m"
  shows "(m + c - 1) div c = Suc ((m - c + c - 1) div c)"
proof -
  from assms have a: "m + c - 1 = (m - 1) + c" and b: "m - c + c - 1 = m - 1" by simp_all
  have "((m - 1) + c) div c = Suc ((m - 1) div c)" using assms(1) div_add_self2 [of c "m - 1"] by simp
  with a b show ?thesis by simp
qed

lemma ceil_div_one:
  fixes c :: nat
  assumes "0 < m" "m \<le> c"
  shows "(m + c - 1) div c = 1"
proof -
  from assms have "c \<le> m + c - 1" "m + c - 1 < 2 * c" by simp_all
  then show ?thesis
    by (metis One_nat_def Suc_1 div_nat_eqI mult.commute mult_Suc nat_mult_1)
qed

lemma readSlice_chunks:
  "offset < file_size f \<Longrightarrow>
   readSlice f offset =
     map (\<lambda>i. Binary (chunk_at f offset i))
         [0..<(file_size f - offset + CHUNK_SIZE - 1) div CHUNK_SIZE]
     @ [Text (Some (file_end f))]"
proof (induction f offset rule: readSlice.induct)
  case (1 f offset)
  let ?C = CHUNK_SIZE
  let ?m = "file_size f - offset"
  let ?result = "take ?C (drop offset (content f))"
  have len: "length ?result = min ?C ?m"
    by (simp add: file_size_def min_def)
  show ?case
  proof (cases "?C < ?m")
    case True
    then have l: "length ?result = ?C" using len by simp
    have next_lt: "offset + length ?result < file_size f" using True l by simp
    have ih: "readSlice f (offset + ?C) =
        map (\<lambda>i. Binary (chunk_at f (offset + ?C) i))
            [0..<(file_size f - (offset + ?C) + ?C - 1) div ?C]
        @ [Text (Some (file_end f))]"
      using "1.IH" [OF refl refl next_lt next_lt] l by simp
    have n: "(?m + ?C - 1) div ?C = Suc ((file_size f - (offset + ?C) + ?C - 1) div ?C)"
      using ceil_div_step [OF CHUNK_SIZE_pos True] by (simp add: diff_diff_left)
    have shift: "chunk_at f (offset + ?C) i = chunk_at f offset (Suc i)" for i
      by (simp add: chunk_at_def add.assoc)
    have unfold: "readSlice f offset = Binary ?result # readSlice f (offset + ?C)"
      using next_lt l by (subst readSlice.simps) (simp add: Let_def)
    have head: "Binary ?result = Binary (chunk_at f offset 0)"
      by (simp add: chunk_at_def)
    show ?thesis
      unfolding unfold ih n head shift
      by (simp add: upt_conv_Cons map_Suc_upt [symmetric] del: upt_Suc)
  next
    case False
    with "1.prems" have m: "0 < ?m" "?m \<le> ?C" by simp_all
    then have "length ?result = ?m" using len by simp
    then have stop: "\<not> offset + length ?result < file_size f" using m by simp
    have n: "(?m + ?C - 1) div ?C = 1" using ceil_div_one [OF m] .
    have unfold: "readSlice f offset = [Binary ?result, Text (Some (file_end f))]"
      using stop by (subst readSlice.simps) (simp add: Let_def)
    show ?thesis
      unfolding unfold n by (simp add: chunk_at_def)
  qed
qed

lemma concat_chunks:
  "concat (map (\<lambda>i. take c (drop (i * c) bs)) [0..<n]) = take (n * c) bs"
proof (induction n)
  case 0
  then show ?case by simp
next
  case (Suc n)
  have "take (n * c) bs @ take c (drop (n * c) bs) = take (n * c + c) bs"
    by (simp add: take_add)
  with Suc show ?case by (simp add: add.commute)
qed

lemma ceil_div_covers:
  fixes c :: nat
  assumes "0 < c"
  shows "m \<le> ((m + c - 1) div c) * c"
proof -
  have "m + c - 1 = ((m + c - 1) div c) * c + (m + c - 1) mod c" by simp
  moreover have "(m + c - 1) mod c < c" using assms by simp
  ultimately show ?thesis by linarith
qed

lemma ceil_div_last:
  fixes c :: nat
  assumes "0 < c" "m mod c \<noteq> 0"
  shows "(m + c - 1) div c = Suc (m div c)"
proof -
  have m: "m = (m div c) * c + m mod c" by simp
  have "m + c - 1 = (m mod c - 1) + (m div c) * c + c" using assms m by linarith
  then have "(m + c - 1) div c = ((m mod c - 1) + (m div c) * c + c) div c" by simp
  also have "\<dots> = Suc (((m mod c - 1) + (m div c) * c) div c)"
    using assms(1) div_add_self2 [of c "(m mod c - 1) + (m div c) * c"] by simp
  also have "((m mod c - 1) + (m div c) * c) div c = m div c"
  proof -
    have "m mod c - 1 < c" using assms(1) by (meson less_imp_diff_less mod_less_divisor)
    then show ?thesis by simp
  qed
  finally show ?thesis .
qed

lemma length_chunk_at: "length (chunk_at f 0 i) = min CHUNK_SIZE (file_size f - i * CHUNK_SIZE)"
  by (simp add: chunk_at_def file_size_def)

lemma deliver_Binary:
  "receivedBuffer (deliver st (Binary d)) = receivedBuffer st @ [d]
   \<and> receivedFile (deliver st (Binary d)) = receivedFile st"
  by (simp add: deliver_def onmessage_def)

lemma deliver_binaries:
  "receivedBuffer (foldl deliver st (map Binary cs)) = receivedBuffer st @ cs
   \<and> receivedFile (foldl deliver st (map Binary cs)) = receivedFile st"
  by (induction cs arbitrary: st) (simp_all add: deliver_Binary)

lemma deliver_file_meta: "receivedBuffer (deliver st (Text (Some (file_meta f)))) = []"
  by (simp add: deliver_def onmessage_def file_meta_def member_def)

lemma deliver_file_end:
  "receivedFile (deliver st (Text (Some (file_end f)))) =
     Some (Some (JStr (file_name f)), concat (receivedBuffer st))"
  by (simp add: deliver_def onmessage_def file_end_def member_def)

lemma receive_transfer:
  "receivedFile (foldl deliver rst (Text (Some (file_meta f)) # map Binary cs @ [Text (Some (file_end f))]))
     = Some (Some (JStr (file_name f)), concat cs)"
  by (simp add: deliver_file_end deliver_binaries deliver_file_meta)

text \<open>
  Claim C1. A selected file of size \<open>S > 0\<close> sent over an open data channel goes out
  as one \<^verbatim>\<open>file-meta\<close> message carrying its name and size, then
  \<open>ceil(S / 16384)\<close> binary messages, the \<open>i\<close>-th holding the bytes from
  \<open>i * 16384\<close> on (so they are in file order, none empty, none longer than 16384,
  the last of \<open>S mod 16384\<close> bytes when that is not zero, together the whole
  file), then one \<^verbatim>\<open>file-end\<close> message carrying the name. A receiver in any state
  that is delivered these messages ends with a received file of that name whose
  bytes are the file's, so of length \<open>S\<close>.
\<close>

theorem chunked_transfer:
  assumes sel: "selectedFile st = Some f"
    and opn: "dataChannel_state st = Some ch_open"
    and pos: "0 < file_size f"
  shows "\<exists>cs. snd (sendFile st) = Text (Some (file_meta f)) # map Binary cs @ [Text (Some (file_end f))]
      \<and> member (file_meta f) ''name'' = Some (JStr (file_name f))
      \<and> member (file_meta f) ''size'' = Some (JNum (int (file_size f)))
      \<and> member (file_end f) ''name'' = Some (JStr (file_name f))
      \<and> length cs = (file_size f + 16383) div 16384
      \<and> (\<forall>i < length cs. cs ! i = take 16384 (drop (i * 16384) (content f)))
      \<and> (\<forall>c \<in> set cs. 0 < length c \<and> length c \<le> 16384)
      \<and> (file_size f mod 16384 \<noteq> 0 \<longrightarrow> length (last cs) = file_size f mod 16384)
      \<and> concat cs = content f
      \<and> (\<forall>rst. \<exists>blob. receivedFile (foldl deliver rst (snd (sendFile st)))
                          = Some (Some (JStr (file_name f)), blob)
                  \<and> blob = content f \<and> length blob = file_size f)"
proof -
  let ?C = CHUNK_SIZE
  define n where "n = (file_size f + ?C - 1) div ?C"
  define cs where "cs = map (chunk_at f 0) [0..<n]"
  have C: "?C = 16384" by (simp add: CHUNK_SIZE_def)
  have n16: "n = (file_size f + 16383) div 16384"
    unfolding n_def by (simp add: CHUNK_SIZE_def)
  have frames: "snd (sendFile st) = Text (Some (file_meta f)) # map Binary cs @ [Text (Some (file_end f))]"
    using sel opn readSlice_chunks [OF pos] by (simp add: sendFile_def comp_def cs_def n_def)
  have len: "length cs = n" by (simp add: cs_def)
  have cover: "file_size f \<le> n * ?C"
    unfolding n_def by (rule ceil_div_covers [OF CHUNK_SIZE_pos])
  have nth: "cs ! i = take ?C (drop (i * ?C) (content f))" if "i < length cs" for i
    using that by (simp add: cs_def chunk_at_def)
  have sizes: "0 < length c \<and> length c \<le> ?C" if "c \<in> set cs" for c
  proof -
    from that obtain i where i: "i < n" and c: "c = chunk_at f 0 i"
      by (auto simp: cs_def)
    have "i * ?C < file_size f"
    proof (rule ccontr)
      assume "\<not> i * ?C < file_size f"
      then have "file_size f \<le> i * ?C" by simp
      then have "file_size f + ?C - 1 < Suc i * ?C" using CHUNK_SIZE_pos by simp
      then have "n < Suc i" unfolding n_def by (simp add: less_mult_imp_div_less)
      with i show False by simp
    qed
    then show ?thesis using c CHUNK_SIZE_pos by (simp add: length_chunk_at)
  qed
  have lst: "length (last cs) = file_size f mod ?C" if "file_size f mod ?C \<noteq> 0"
  proof -
    have n: "n = Suc (file_size f div ?C)"
      unfolding n_def by (rule ceil_div_last [OF CHUNK_SIZE_pos that])
    have "last cs = chunk_at f 0 (file_size f div ?C)"
      unfolding cs_def n by (simp del: upt_Suc add: last_map)
    moreover have "file_size f - (file_size f div ?C) * ?C = file_size f mod ?C"
      by (simp add: minus_div_mult_eq_mod)
    moreover have "file_size f mod ?C < ?C" using CHUNK_SIZE_pos by simp
    ultimately show ?thesis by (simp add: length_chunk_at)
  qed
  have cat: "concat cs = content f"
  proof -
    have "cs = map (\<lambda>i. take ?C (drop (i * ?C) (content f))) [0..<n]"
      by (simp add: cs_def chunk_at_def)
    then have "concat cs = take (n * ?C) (content f)"
      by (simp only: concat_chunks)
    with cover show ?thesis by (simp add: file_size_def)
  qed
  have recv: "\<forall>rst. \<exists>blob. receivedFile (foldl deliver rst (snd (sendFile st)))
                          = Some (Some (JStr (file_name f)), blob)
                  \<and> blob = content f \<and> length blob = file_size f"
    unfolding frames receive_transfer using cat by (simp add: file_size_def)
  have meta: "member (file_meta f) ''name'' = Some (JStr (file_name f))"
    "member (file_meta f) ''size'' = Some (JNum (int (file_size f)))"
    "member (file_end f) ''name'' = Some (JStr (file_name f))"
    by (simp_all add: file_meta_def file_end_def member_def)
  have len': "length cs = (file_size f + 16383) div 16384"
    using len n16 by (rule trans)
  have nth': "\<forall>i < length cs. cs ! i = take 16384 (drop (i * 16384) (content f))"
    using nth unfolding C by blast
  have sizes': "\<forall>c \<in> set cs. 0 < length c \<and> length c \<le> 16384"
    using sizes unfolding C by blast
  have lst': "file_size f mod 16384 \<noteq> 0 \<longrightarrow> length (last cs) = file_size f mod 16384"
    using lst unfolding C by blast
  from frames meta len' nth' sizes' lst' cat recv
  have "snd (sendFile st) = Text (Some (file_meta f)) # map Binary cs @ [Text (Some (file_end f))]
      \<and> member (file_meta f) ''name'' = Some (JStr (file_name f))
      \<and> member (file_meta f) ''size'' = Some (JNum (int (file_size f)))
      \<and> member (file_end f) ''name'' = Some (JStr (file_name f))
      \<and> length cs = (file_size f + 16383) div 16384
      \<and> (\<forall>i < length cs. cs ! i = take 16384 (drop (i * 16384) (content f)))
      \<and> (\<forall>c \<in> set cs. 0 < length c \<and> length c \<le> 16384)
      \<and> (file_size f mod 16384 \<noteq> 0 \<longrightarrow> length (last cs) = file_size f mod 16384)
      \<and> concat cs = content f
      \<and> (\<forall>rst. \<exists>blob. receivedFile (foldl deliver rst (snd (sendFile st)))
                          = Some (Some (JStr (file_name f)), blob)
                  \<and> blob = content f \<and> length blob = file_size f)"
    by (intro conjI)
  then show ?thesis by (rule exI)
qed

theorem chunked_transfer_witness:
  "0 < file_size \<lparr>file_name = ''report.pdf'', file_type = ''application/pdf'', content = replicate 40000 0\<rparr>
   \<and> (\<exists>cs. snd (sendFile \<lparr>selectedFile = Some \<lparr>file_name = ''report.pdf'',
                  file_type = ''application/pdf'', content = replicate 40000 0\<rparr>,
                dataChannel_state = Some ch_open, fileTransfer = None, receivedFile = None,
                receivedBuffer = []\<rparr>)
          = Text (Some (JObj [(''type'', JStr ''file-meta''), (''name'', JStr ''report.pdf''),
                              (''size'', JNum 40000)]))
            # map Binary cs
            @ [Text (Some (JObj [(''type'', JStr ''file-end''), (''name'', JStr ''report.pdf'')]))]
        \<and> length cs = 3
        \<and> length (cs ! 0) = 16384 \<and> length (cs ! 1) = 16384 \<and> length (cs ! 2) = 7232
        \<and> length (concat cs) = 40000)"
proof -
  let ?f = "\<lparr>file_name = ''report.pdf'', file_type = ''application/pdf'',
             content = replicate 40000 (0::byte)\<rparr>"
  let ?st = "\<lparr>selectedFile = Some ?f, dataChannel_state = Some ch_open, fileTransfer = None,
              receivedFile = None, receivedBuffer = []\<rparr>"
  have sz: "file_size ?f = 40000" by (simp add: file_size_def)
  have h1: "selectedFile ?st = Some ?f" by simp
  have h2: "dataChannel_state ?st = Some ch_open" by simp
  have h3: "0 < file_size ?f" by (simp add: sz)
  from chunked_transfer [OF h1 h2 h3] obtain cs where
    fr: "snd (sendFile ?st) = Text (Some (file_meta ?f)) # map Binary cs @ [Text (Some (file_end ?f))]"
    and len: "length cs = (file_size ?f + 16383) div 16384"
    and nth: "\<forall>i < length cs. cs ! i = take 16384 (drop (i * 16384) (content ?f))"
    and cat: "concat cs = content ?f"
    by blast
  have l3: "length cs = 3" using len by (simp add: sz)
  have c0: "length (cs ! 0) = 16384" and c1: "length (cs ! 1) = 16384"
    and c2: "length (cs ! 2) = 7232"
    using nth l3 by simp_all
  have m: "file_meta ?f = JObj [(''type'', JStr ''file-meta''), (''name'', JStr ''report.pdf''),
                              (''size'', JNum 40000)]"
    by (simp add: file_meta_def sz)
  have e: "file_end ?f = JObj [(''type'', JStr ''file-end''), (''name'', JStr ''report.pdf'')]"
    by (simp add: file_end_def)
  have total: "length (concat cs) = 40000" using cat by simp
  from fr l3 c0 c1 c2 total have "snd (sendFile ?st)
          = Text (Some (JObj [(''type'', JStr ''file-meta''), (''name'', JStr ''report.pdf''),
                              (''size'', JNum 40000)]))
            # map Binary cs
            @ [Text (Some (JObj [(''type'', JStr ''file-end''), (''name'', JStr ''report.pdf'')]))]
        \<and> length cs = 3
        \<and> length (cs ! 0) = 16384 \<and> length (cs ! 1) = 16384 \<and> length (cs ! 2) = 7232
        \<and> length (concat cs) = 40000"
    unfolding m e by (intro conjI)
  then have "\<exists>cs. snd (sendFile ?st)
          = Text (Some (JObj [(''type'', JStr ''file-meta''), (''name'', JStr ''report.pdf''),
                              (''size'', JNum 40000)]))
            # map Binary cs
            @ [Text (Some (JObj [(''type'', JStr ''file-end''), (''name'', JStr ''report.pdf'')]))]
        \<and> length cs = 3
        \<and> length (cs ! 0) = 16384 \<and> length (cs ! 1) = 16384 \<and> length (cs ! 2) = 7232
        \<and> length (concat cs) = 40000"
    by (rule exI)
  with h3 show ?thesis by (rule conjI)
qed


section \<open>Properties of the endpoint with relay signaling\<close>

lemma offer_leaves_record:
  "map_of (peerConnectionsRef (fst (handle_offer tr st p offer))) p \<noteq> None"
  by (auto simp: handle_offer_def offer_received_def offer_continue_def createPeerConnection_def
      Let_def AList.update_conv' split: prod.splits option.splits bool.splits)

text \<open>
  Claim C5. When a record exists for the source identifier, handling an offer from
  that identifier returns the state as it was (no record is created, the existing
  one is not touched) and sends nothing, so no answer. Hence handling an offer from
  an identifier a second time, whatever the first one did, changes nothing and sends
  nothing.
\<close>

theorem duplicate_offer_is_noop:
  "(map_of (peerConnectionsRef st) fromPeerId \<noteq> None \<longrightarrow>
      handleSignalingMessage tr st (SOffer fromPeerId offer) = (st, []))
   \<and> handleSignalingMessage tr (fst (handleSignalingMessage tr st (SOffer fromPeerId offer)))
        (SOffer fromPeerId offer')
      = (fst (handleSignalingMessage tr st (SOffer fromPeerId offer)), [])"
proof -
  have a: "handle_offer tr s fromPeerId off = (s, [])"
    if "map_of (peerConnectionsRef s) fromPeerId \<noteq> None" for s off
    using that by (simp add: handle_offer_def offer_received_def)
  have b: "map_of (peerConnectionsRef (fst (handle_offer tr st fromPeerId offer))) fromPeerId \<noteq> None"
    by (rule offer_leaves_record)
  show ?thesis
    using a [of st offer] a [OF b, of offer'] by (simp add: handleSignalingMessage_def)
qed

text \<open>
  Claim C5 on an example: a second offer from \<open>alice\<close> after her first one created
  the record.
\<close>

theorem duplicate_offer_is_noop_witness:
  "map_of (peerConnectionsRef (fst (offer_received initial_webrtc ''alice''))) ''alice'' \<noteq> None
   \<and> handleSignalingMessage accepting_transport (fst (offer_received initial_webrtc ''alice''))
        (SOffer ''alice'' (JStr ''sdp''))
      = (fst (offer_received initial_webrtc ''alice''), [])"
proof -
  let ?st = "fst (offer_received initial_webrtc ''alice'')"
  have h: "map_of (peerConnectionsRef ?st) ''alice'' \<noteq> None"
    by (simp add: offer_received_def initial_webrtc_def createPeerConnection_def Let_def)
  from duplicate_offer_is_noop [of ?st "''alice''" accepting_transport "JStr ''sdp''"] h
  have "handleSignalingMessage accepting_transport ?st (SOffer ''alice'' (JStr ''sdp'')) = (?st, [])"
    by blast
  with h show ?thesis by (rule conjI)
qed

lemma openConnections_empty_iff:
  "(openConnections st = []) = (\<forall>(k, a) \<in> set (peerConnectionsRef st). dataChannel (heap st a) \<noteq> Some ch_open)"
  by (auto simp: openConnections_def channel_open_def filter_empty_conv)

text \<open>
  Claim C7. \<^verbatim>\<open>sendFileToPeer\<close> to an unknown peer, or to a peer whose data channel is
  not open, returns \<^verbatim>\<open>false\<close> and sends nothing, at once or later; to a peer whose
  channel is open it returns \<^verbatim>\<open>true\<close>. \<^verbatim>\<open>sendFile\<close> returns \<^verbatim>\<open>false\<close> and sends
  nothing when no registered peer has an open channel, and returns \<^verbatim>\<open>true\<close> (and
  sends) when at least one has.
\<close>

theorem send_without_open_channel_fails:
  "(map_of (peerConnectionsRef st) remotePeerId = None \<longrightarrow>
      sendFileToPeer st f remotePeerId = (False, []))
   \<and> (\<forall>a. map_of (peerConnectionsRef st) remotePeerId = Some a \<longrightarrow>
          sendFileToPeer st f remotePeerId
            = (if dataChannel (heap st a) = Some ch_open
               then (True, [ChannelSend a (Text (Some (file_metadata f))),
                            ChannelSendLater a (Binary (content f))])
               else (False, [])))
   \<and> ((\<forall>(k, a) \<in> set (peerConnectionsRef st). dataChannel (heap st a) \<noteq> Some ch_open) \<longrightarrow>
          webrtc_sendFile st f = (False, []))
   \<and> ((\<exists>(k, a) \<in> set (peerConnectionsRef st). dataChannel (heap st a) = Some ch_open) \<longrightarrow>
          fst (webrtc_sendFile st f) = True \<and> snd (webrtc_sendFile st f) \<noteq> [])"
proof (intro conjI allI impI)
  assume "map_of (peerConnectionsRef st) remotePeerId = None"
  then show "sendFileToPeer st f remotePeerId = (False, [])"
    by (simp add: sendFileToPeer_def)
next
  fix a
  assume "map_of (peerConnectionsRef st) remotePeerId = Some a"
  then show "sendFileToPeer st f remotePeerId
            = (if dataChannel (heap st a) = Some ch_open
               then (True, [ChannelSend a (Text (Some (file_metadata f))),
                            ChannelSendLater a (Binary (content f))])
               else (False, []))"
    by (simp add: sendFileToPeer_def)
next
  assume "\<forall>(k, a) \<in> set (peerConnectionsRef st). dataChannel (heap st a) \<noteq> Some ch_open"
  then have "openConnections st = []" by (simp add: openConnections_empty_iff)
  then show "webrtc_sendFile st f = (False, [])"
    by (simp add: webrtc_sendFile_def)
next
  assume "\<exists>(k, a) \<in> set (peerConnectionsRef st). dataChannel (heap st a) = Some ch_open"
  then have ne: "openConnections st \<noteq> []" by (auto simp: openConnections_empty_iff)
  then show "fst (webrtc_sendFile st f) = True" by (simp add: webrtc_sendFile_def)
  from ne show "snd (webrtc_sendFile st f) \<noteq> []" by (simp add: webrtc_sendFile_def)
qed

lemmas webrtc_eval =
  offer_received_def initial_webrtc_def createPeerConnection_def Let_def
  channel_onopen_def channel_onclose_def setupDataChannel_def updateConnectionsList_def
  channel_open_def new_RTCPeerConnection_def ws_onopen_def ws_onclose_def

text \<open>
  Claim C7 on an example: a peer \<open>bob\<close> whose channel has not arrived yet, an unknown
  peer \<open>carol\<close>, and \<open>bob\<close> again once his channel is open.
\<close>

theorem send_without_open_channel_fails_witness:
  "map_of (peerConnectionsRef (fst (offer_received initial_webrtc ''bob''))) ''carol'' = None
   \<and> sendFileToPeer (fst (offer_received initial_webrtc ''bob''))
        \<lparr>file_name = ''a.txt'', file_type = ''text/plain'', content = [1, 2, 3]\<rparr> ''carol'' = (False, [])
   \<and> map_of (peerConnectionsRef (fst (offer_received initial_webrtc ''bob''))) ''bob'' = Some 0
   \<and> sendFileToPeer (fst (offer_received initial_webrtc ''bob''))
        \<lparr>file_name = ''a.txt'', file_type = ''text/plain'', content = [1, 2, 3]\<rparr> ''bob'' = (False, [])
   \<and> webrtc_sendFile (fst (offer_received initial_webrtc ''bob''))
        \<lparr>file_name = ''a.txt'', file_type = ''text/plain'', content = [1, 2, 3]\<rparr> = (False, [])
   \<and> fst (webrtc_sendFile (channel_onopen (fst (offer_received initial_webrtc ''bob'')) 0)
        \<lparr>file_name = ''a.txt'', file_type = ''text/plain'', content = [1, 2, 3]\<rparr>) = True"
proof -
  let ?st = "fst (offer_received initial_webrtc ''bob'')"
  let ?st' = "channel_onopen ?st 0"
  let ?f = "\<lparr>file_name = ''a.txt'', file_type = ''text/plain'', content = [1, 2, 3 :: byte]\<rparr>"
  have refs: "peerConnectionsRef ?st = [(''bob'', 0)]" by (simp add: webrtc_eval)
  have ch: "dataChannel (heap ?st 0) = None" by (simp add: webrtc_eval)
  have refs': "peerConnectionsRef ?st' = [(''bob'', 0)]" by (simp add: webrtc_eval)
  have ch': "dataChannel (heap ?st' 0) = Some ch_open" by (simp add: webrtc_eval)
  have h1: "map_of (peerConnectionsRef ?st) ''carol'' = None" by (simp add: refs)
  have h2: "map_of (peerConnectionsRef ?st) ''bob'' = Some 0" by (simp add: refs)
  have h3: "\<forall>(k, a) \<in> set (peerConnectionsRef ?st). dataChannel (heap ?st a) \<noteq> Some ch_open"
    by (simp add: refs ch)
  have h4: "\<exists>(k, a) \<in> set (peerConnectionsRef ?st'). dataChannel (heap ?st' a) = Some ch_open"
    by (simp add: refs' ch')
  from send_without_open_channel_fails [of ?st "''carol''" ?f] h1
  have r1: "sendFileToPeer ?st ?f ''carol'' = (False, [])" by blast
  from send_without_open_channel_fails [of ?st "''bob''" ?f] h2
  have "sendFileToPeer ?st ?f ''bob''
            = (if dataChannel (heap ?st 0) = Some ch_open
               then (True, [ChannelSend 0 (Text (Some (file_metadata ?f))),
                            ChannelSendLater 0 (Binary (content ?f))])
               else (False, []))" by blast
  then have r2: "sendFileToPeer ?st ?f ''bob'' = (False, [])" by (simp add: ch)
  from send_without_open_channel_fails [of ?st "''bob''" ?f] h3
  have r3: "webrtc_sendFile ?st ?f = (False, [])" by blast
  from send_without_open_channel_fails [of ?st' "''bob''" ?f] h4
  have r4: "fst (webrtc_sendFile ?st' ?f) = True" by blast
  from h1 r1 h2 r2 r3 r4 show ?thesis by (intro conjI)
qed

text \<open>
  Claim C8 fails as stated. The relay link opens, an offer from \<open>bob\<close> creates a
  record, the relay link closes, \<open>bob\<close>'s data channel opens and closes again. The
  last recomputation finds no open channel and the relay link down, and the status
  is \<^verbatim>\<open>connected\<close>, not \<^verbatim>\<open>error\<close>.
\<close>

theorem stale_status_counterexample:
  "connections (channel_onclose (channel_onopen (ws_onclose
       (fst (offer_received (ws_onopen initial_webrtc) ''bob''))) 0) 0) = []
   \<and> wsRef (channel_onclose (channel_onopen (ws_onclose
       (fst (offer_received (ws_onopen initial_webrtc) ''bob''))) 0) 0) = Some CLOSED
   \<and> status (channel_onclose (channel_onopen (ws_onclose
       (fst (offer_received (ws_onopen initial_webrtc) ''bob''))) 0) 0) = Connected"
  by (simp add: webrtc_eval)

text \<open>
  Claim C8, amended. \<^verbatim>\<open>updateConnectionsList\<close> sets the connections list to the
  registered identifiers whose data channel is open, in insertion order, and the
  status to \<^verbatim>\<open>connected\<close> when that list is not empty, otherwise to \<^verbatim>\<open>disconnected\<close>
  when the relay link is open, and otherwise leaves the status as it was. The
  status \<^verbatim>\<open>error\<close> for a relay link that is down is set by the link's close handler,
  and \<^verbatim>\<open>connecting\<close> is never derived: the recomputation ends in it only by leaving
  it.
\<close>

theorem status_recomputation:
  "connections (updateConnectionsList st)
     = filter (\<lambda>p. \<exists>a. map_of (peerConnectionsRef st) p = Some a \<and> dataChannel (heap st a) = Some ch_open)
              (map fst (peerConnectionsRef st))
   \<and> status (updateConnectionsList st)
     = (if connections (updateConnectionsList st) \<noteq> [] then Connected
        else if wsRef st = Some OPEN then Disconnected
        else status st)
   \<and> peerConnectionsRef (updateConnectionsList st) = peerConnectionsRef st
   \<and> status (ws_onclose st) = Error
   \<and> (status (updateConnectionsList st) = Connecting)
     = (status st = Connecting \<and> connections (updateConnectionsList st) = [] \<and> wsRef st \<noteq> Some OPEN)"
proof -
  have f: "(\<lambda>pid. case map_of (peerConnectionsRef st) pid of Some a \<Rightarrow> channel_open st a | None \<Rightarrow> False)
      = (\<lambda>p. \<exists>a. map_of (peerConnectionsRef st) p = Some a \<and> dataChannel (heap st a) = Some ch_open)"
    by (auto simp: channel_open_def fun_eq_iff split: option.splits)
  have c: "connections (updateConnectionsList st)
     = filter (\<lambda>p. \<exists>a. map_of (peerConnectionsRef st) p = Some a \<and> dataChannel (heap st a) = Some ch_open)
              (map fst (peerConnectionsRef st))"
    unfolding f [symmetric] by (simp add: updateConnectionsList_def Let_def)
  have s: "status (updateConnectionsList st)
     = (if connections (updateConnectionsList st) \<noteq> [] then Connected
        else if wsRef st = Some OPEN then Disconnected
        else status st)"
    by (simp add: updateConnectionsList_def Let_def)
  have r: "peerConnectionsRef (updateConnectionsList st) = peerConnectionsRef st"
    by (simp add: updateConnectionsList_def Let_def)
  have e: "status (ws_onclose st) = Error" by (simp add: ws_onclose_def)
  have g: "(status (updateConnectionsList st) = Connecting)
     = (status st = Connecting \<and> connections (updateConnectionsList st) = [] \<and> wsRef st \<noteq> Some OPEN)"
    unfolding s by auto
  from c s r e g show ?thesis by (intro conjI)
qed

text \<open>
  Claim C8 on examples: with \<open>bob\<close>'s channel open the list is \<open>[bob]\<close> and the status
  \<^verbatim>\<open>connected\<close>; once it has closed, with the relay link open, the list is empty
  and the status \<^verbatim>\<open>disconnected\<close>.
\<close>

theorem status_recomputation_witness:
  "connections (updateConnectionsList
      (setupDataChannel (fst (offer_received (ws_onopen initial_webrtc) ''bob'')) 0 ch_open))
     = [''bob'']
   \<and> status (updateConnectionsList
      (setupDataChannel (fst (offer_received (ws_onopen initial_webrtc) ''bob'')) 0 ch_open))
     = Connected
   \<and> connections (updateConnectionsList
      (setupDataChannel (fst (offer_received (ws_onopen initial_webrtc) ''bob'')) 0 ch_closed))
     = []
   \<and> status (updateConnectionsList
      (setupDataChannel (fst (offer_received (ws_onopen initial_webrtc) ''bob'')) 0 ch_closed))
     = Disconnected"
proof -
  let ?st = "fst (offer_received (ws_onopen initial_webrtc) ''bob'')"
  let ?o = "setupDataChannel ?st 0 ch_open"
  let ?c = "setupDataChannel ?st 0 ch_closed"
  have refs: "peerConnectionsRef ?o = [(''bob'', 0)]" "peerConnectionsRef ?c = [(''bob'', 0)]"
    by (simp_all add: webrtc_eval)
  have ch: "dataChannel (heap ?o 0) = Some ch_open" "dataChannel (heap ?c 0) = Some ch_closed"
    by (simp_all add: webrtc_eval)
  have ws: "wsRef ?o = Some OPEN" "wsRef ?c = Some OPEN"
    by (simp_all add: webrtc_eval)
  note o = status_recomputation [of ?o]
  note c = status_recomputation [of ?c]
  from o have "connections (updateConnectionsList ?o)
     = filter (\<lambda>p. \<exists>a. map_of (peerConnectionsRef ?o) p = Some a \<and> dataChannel (heap ?o a) = Some ch_open)
              (map fst (peerConnectionsRef ?o))"
    by blast
  then have co: "connections (updateConnectionsList ?o) = [''bob'']"
    by (simp add: refs ch)
  from o have "status (updateConnectionsList ?o)
     = (if connections (updateConnectionsList ?o) \<noteq> [] then Connected
        else if wsRef ?o = Some OPEN then Disconnected
        else status ?o)"
    by blast
  then have so: "status (updateConnectionsList ?o) = Connected"
    by (simp add: co)
  from c have "connections (updateConnectionsList ?c)
     = filter (\<lambda>p. \<exists>a. map_of (peerConnectionsRef ?c) p = Some a \<and> dataChannel (heap ?c a) = Some ch_open)
              (map fst (peerConnectionsRef ?c))"
    by blast
  then have cc: "connections (updateConnectionsList ?c) = []"
    by (simp add: refs ch)
  from c have "status (updateConnectionsList ?c)
     = (if connections (updateConnectionsList ?c) \<noteq> [] then Connected
        else if wsRef ?c = Some OPEN then Disconnected
        else status ?c)"
    by blast
  then have sc: "status (updateConnectionsList ?c) = Disconnected"
    by (simp add: cc ws)
  from co so cc sc show ?thesis by (intro conjI)
qed

lemma finalize_file_clears:
  "map_of (fileMetadataRef (fst (finalize_file now st bytes p))) p = None"
  by (simp add: finalize_file_def Let_def AList.delete_conv')

lemma finalize_file_result:
  "finalize_file now st bytes p =
     (st\<lparr>receivedFiles := receivedFiles st
            @ [\<lparr>rf_name = filename_for (map_of (fileMetadataRef st) p) now,
                rf_size = length bytes, timestamp = now\<rparr>],
         fileMetadataRef := AList.delete p (fileMetadataRef st)\<rparr>,
      [Download bytes (filename_for (map_of (fileMetadataRef st) p) now)])"
  by (simp add: finalize_file_def Let_def)

text \<open>
  Claim C10. A Blob or an ArrayBuffer from a sender is downloaded and listed under
  the name of the sender's stored metadata (a name that JavaScript takes as true),
  and the sender's metadata entry is deleted, the other senders' entries staying. A
  second Blob or ArrayBuffer from the same sender right after it is not dropped: it
  is downloaded and listed under the placeholder \<^verbatim>\<open>file-<clock>\<close>, not under the
  previous name.
\<close>

theorem metadata_consumed_by_one_binary:
  assumes bin: "data = DBlob bytes \<or> data = DArrayBuffer bytes"
    and bin': "data' = DBlob bytes' \<or> data' = DArrayBuffer bytes'"
  shows "(\<forall>m n. map_of (fileMetadataRef st) fromPeerId = Some m \<and> member m ''name'' = Some n \<and> truthy n \<longrightarrow>
            snd (handleIncomingData now st data fromPeerId) = [Download bytes n]
            \<and> receivedFiles (fst (handleIncomingData now st data fromPeerId))
                = receivedFiles st @ [\<lparr>rf_name = n, rf_size = length bytes, timestamp = now\<rparr>])
    \<and> map_of (fileMetadataRef (fst (handleIncomingData now st data fromPeerId))) fromPeerId = None
    \<and> (\<forall>q. q \<noteq> fromPeerId \<longrightarrow>
          map_of (fileMetadataRef (fst (handleIncomingData now st data fromPeerId))) q
            = map_of (fileMetadataRef st) q)
    \<and> snd (handleIncomingData now' (fst (handleIncomingData now st data fromPeerId)) data' fromPeerId)
        = [Download bytes' (JStr (''file-'' @ string_of_nat now'))]
    \<and> receivedFiles (fst (handleIncomingData now' (fst (handleIncomingData now st data fromPeerId))
          data' fromPeerId))
        = receivedFiles (fst (handleIncomingData now st data fromPeerId))
          @ [\<lparr>rf_name = JStr (''file-'' @ string_of_nat now'), rf_size = length bytes', timestamp = now'\<rparr>]"
proof -
  let ?st1 = "fst (handleIncomingData now st data fromPeerId)"
  have h: "handleIncomingData now st data fromPeerId = finalize_file now st bytes fromPeerId"
    using bin by (auto simp: handleIncomingData_def)
  have h': "handleIncomingData now' s data' fromPeerId = finalize_file now' s bytes' fromPeerId" for s
    using bin' by (auto simp: handleIncomingData_def)
  have gone: "map_of (fileMetadataRef ?st1) fromPeerId = None"
    unfolding h by (rule finalize_file_clears)
  have others: "\<forall>q. q \<noteq> fromPeerId \<longrightarrow> map_of (fileMetadataRef ?st1) q = map_of (fileMetadataRef st) q"
    unfolding h by (simp add: finalize_file_result AList.delete_conv')
  have named: "\<forall>m n. map_of (fileMetadataRef st) fromPeerId = Some m \<and> member m ''name'' = Some n \<and> truthy n \<longrightarrow>
            snd (handleIncomingData now st data fromPeerId) = [Download bytes n]
            \<and> receivedFiles ?st1
                = receivedFiles st @ [\<lparr>rf_name = n, rf_size = length bytes, timestamp = now\<rparr>]"
    unfolding h by (simp add: finalize_file_result filename_for_def)
  have placeholder: "filename_for (map_of (fileMetadataRef ?st1) fromPeerId) now'
      = JStr (''file-'' @ string_of_nat now')"
    by (simp add: gone filename_for_def)
  have second: "snd (handleIncomingData now' ?st1 data' fromPeerId)
        = [Download bytes' (JStr (''file-'' @ string_of_nat now'))]"
    unfolding h' by (simp add: finalize_file_result placeholder)
  have second': "receivedFiles (fst (handleIncomingData now' ?st1 data' fromPeerId))
        = receivedFiles ?st1
          @ [\<lparr>rf_name = JStr (''file-'' @ string_of_nat now'), rf_size = length bytes', timestamp = now'\<rparr>]"
    unfolding h' by (simp add: finalize_file_result placeholder)
  from named gone others second second' show ?thesis by (intro conjI)
qed

lemma string_of_nat_42: "string_of_nat 42 = ''42''"
  by (simp add: digit_char_def)

text \<open>
  Claim C10 on an example: metadata \<open>a.txt\<close> from \<open>alice\<close>, then two binary messages.
\<close>

theorem metadata_consumed_by_one_binary_witness:
  "snd (handleIncomingData 41
          (fst (handleIncomingData 40 initial_webrtc
                  (DString (Some (JObj [(''type'', JStr ''file-metadata''), (''name'', JStr ''a.txt'')])))
                  ''alice''))
          (DArrayBuffer [1, 2, 3]) ''alice'')
     = [Download [1, 2, 3] (JStr ''a.txt'')]
   \<and> snd (handleIncomingData 42
          (fst (handleIncomingData 41
             (fst (handleIncomingData 40 initial_webrtc
                  (DString (Some (JObj [(''type'', JStr ''file-metadata''), (''name'', JStr ''a.txt'')])))
                  ''alice''))
             (DArrayBuffer [1, 2, 3]) ''alice''))
          (DBlob [4, 5]) ''alice'')
     = [Download [4, 5] (JStr ''file-42'')]"
proof -
  let ?m = "JObj [(''type'', JStr ''file-metadata''), (''name'', JStr ''a.txt'')]"
  let ?st = "fst (handleIncomingData 40 initial_webrtc (DString (Some ?m)) ''alice'')"
  have stored: "map_of (fileMetadataRef ?st) ''alice'' = Some ?m"
    by (simp add: handleIncomingData_def initial_webrtc_def)
  have name: "member ?m ''name'' = Some (JStr ''a.txt'')" by (simp add: member_def)
  have tr: "truthy (JStr ''a.txt'')" by simp
  have b1: "DArrayBuffer [1, 2, 3] = DBlob [1, 2, 3] \<or> DArrayBuffer [1, 2, 3] = DArrayBuffer [1, 2, 3 :: byte]"
    by simp
  have b2: "DBlob [4, 5] = DBlob [4, 5] \<or> DBlob [4, 5] = DArrayBuffer [4, 5 :: byte]"
    by simp
  note t = metadata_consumed_by_one_binary [OF b1 b2, of ?st "''alice''" 41 42]
  from t stored name tr
  have r1: "snd (handleIncomingData 41 ?st (DArrayBuffer [1, 2, 3]) ''alice'')
      = [Download [1, 2, 3] (JStr ''a.txt'')]"
    by blast
  from t have "snd (handleIncomingData 42
        (fst (handleIncomingData 41 ?st (DArrayBuffer [1, 2, 3]) ''alice'')) (DBlob [4, 5]) ''alice'')
      = [Download [4, 5] (JStr (''file-'' @ string_of_nat 42))]"
    by blast
  then have r2: "snd (handleIncomingData 42
        (fst (handleIncomingData 41 ?st (DArrayBuffer [1, 2, 3]) ''alice'')) (DBlob [4, 5]) ''alice'')
      = [Download [4, 5] (JStr ''file-42'')]"
    by (simp only: string_of_nat_42 append.simps)
  from r1 r2 show ?thesis by (rule conjI)
qed










section \<open>Properties of the endpoint without relay\<close>

lemmas peerjs_eval =
  opened_peerjs_def pj_connectToPeer_def peer_on_connection_def handleConnection_def live_def
  conn_on_open_def pj_updateConnectionsList_def

lemma tie_break_when_registered:
  assumes "map_of (connectionsRef st) (peer conn) = Some existingConn"
  shows "peer_on_connection st conn =
     (if local_id st < peer conn
      then st\<lparr>closed_conns := closed_conns st @ [conn]\<rparr>
      else st\<lparr>closed_conns := closed_conns st @ [existingConn],
              connectionsRef := AList.delete (peer conn) (connectionsRef st),
              handled := handled st @ [conn]\<rparr>)"
  using assms by (simp add: peer_on_connection_def handleConnection_def)

text \<open>
  Claim C2 fails on the code. The endpoints \<open>A\<close> and \<open>B\<close> connect to each other at
  the same time: each has called \<^verbatim>\<open>connectToPeer\<close>, and the other's connection
  arrives before its own has opened. \<^verbatim>\<open>connectionsRef\<close> only holds opened
  connections, so neither endpoint finds an existing connection: \<open>A\<close>, whose
  identifier is the smaller, does not close the incoming connection, \<open>B\<close> does not
  close its outgoing one, and both connections stay live on both sides.
\<close>

theorem simultaneous_connect_keeps_both:
  "''A'' < ''B''
   \<and> connectionsRef (pj_connectToPeer (opened_peerjs ''A'') ''B'' 1) = []
   \<and> closed_conns (peer_on_connection (pj_connectToPeer (opened_peerjs ''A'') ''B'' 1)
        \<lparr>conn_id = 2, peer = ''B''\<rparr>) = []
   \<and> live (peer_on_connection (pj_connectToPeer (opened_peerjs ''A'') ''B'' 1)
        \<lparr>conn_id = 2, peer = ''B''\<rparr>)
      = [\<lparr>conn_id = 1, peer = ''B''\<rparr>, \<lparr>conn_id = 2, peer = ''B''\<rparr>]
   \<and> closed_conns (peer_on_connection (pj_connectToPeer (opened_peerjs ''B'') ''A'' 2)
        \<lparr>conn_id = 1, peer = ''A''\<rparr>) = []
   \<and> live (peer_on_connection (pj_connectToPeer (opened_peerjs ''B'') ''A'' 2)
        \<lparr>conn_id = 1, peer = ''A''\<rparr>)
      = [\<lparr>conn_id = 2, peer = ''A''\<rparr>, \<lparr>conn_id = 1, peer = ''A''\<rparr>]"
  by (simp add: peerjs_eval)

end
